theory Spec2Isabelle
  imports Main
begin

section \<open>Python strings\<close>

text \<open>
  Strings are lists of 8-bit characters, read as the code points 0..255 (Latin-1), which
  is also how the HTTP layer decodes header values. The functions below are the Python
  string methods used by \<^verbatim>\<open>app.py\<close> and \<^verbatim>\<open>mysql_helper.py\<close> on that range.
\<close>

definition py_isspace :: "char \<Rightarrow> bool" where
  "py_isspace c = ((of_char c :: nat) \<in> {9, 10, 11, 12, 13, 28, 29, 30, 31, 32, 133, 160})"

definition py_strip :: "string \<Rightarrow> string" where
  "py_strip s = rev (dropWhile py_isspace (rev (dropWhile py_isspace s)))"

definition py_lower_char :: "char \<Rightarrow> char" where
  "py_lower_char c =
     (let n = (of_char c :: nat)
      in if (65 \<le> n \<and> n \<le> 90) \<or> (192 \<le> n \<and> n \<le> 222 \<and> n \<noteq> 215)
         then char_of (n + 32) else c)"

definition py_lower :: "string \<Rightarrow> string" where
  "py_lower s = map py_lower_char s"

definition py_startswith :: "string \<Rightarrow> string \<Rightarrow> bool" where
  "py_startswith s p = (take (length p) s = p)"

definition py_endswith :: "string \<Rightarrow> string \<Rightarrow> bool" where
  "py_endswith s p = (length p \<le> length s \<and> drop (length s - length p) s = p)"

text \<open>\<^verbatim>\<open>"\n".join(buff)\<close>\<close>

fun py_join :: "string \<Rightarrow> string list \<Rightarrow> string" where
  "py_join sep [] = []"
| "py_join sep [x] = x"
| "py_join sep (x # y # ys) = x @ sep @ py_join sep (y # ys)"

text \<open>
  \<^verbatim>\<open>str.splitlines()\<close>: a line ends at LF, CR, CR LF, VT, FF, FS, GS, RS or NEL; the
  terminators are dropped and a final terminator opens no further line.
\<close>

definition is_linebreak :: "char \<Rightarrow> bool" where
  "is_linebreak c = ((of_char c :: nat) \<in> {10, 11, 12, 13, 28, 29, 30, 133})"

fun splitlines_from :: "string \<Rightarrow> string \<Rightarrow> string list" where
  "splitlines_from cur [] = (if cur = [] then [] else [cur])"
| "splitlines_from cur [c] =
     (if is_linebreak c then [cur] else [cur @ [c]])"
| "splitlines_from cur (c # d # cs) =
     (if (of_char c :: nat) = 13 \<and> (of_char d :: nat) = 10 then cur # splitlines_from [] cs
      else if is_linebreak c then cur # splitlines_from [] (d # cs)
      else splitlines_from (cur @ [c]) (d # cs))"

definition py_splitlines :: "string \<Rightarrow> string list" where
  "py_splitlines s = splitlines_from [] s"

section \<open>Token issuance and verification (app.py)\<close>

text \<open>
  JSON values carried in a token or a response body. A float is \<open>m * 2 ^ e\<close>, an infinity
  or not-a-number, as the JSON reader of Python produces them; an array or object nested in
  a payload, which the code never looks into, is held as its JSON text. Python
  dictionaries are insertion-ordered association lists with distinct keys.
\<close>

datatype jfloat = FFinite int int | FPosInf | FNegInf | FNaN

datatype jval = JNull | JBool bool | JInt int | JFloat jfloat | JStr string | JNested string

type_synonym pydict = "(string \<times> jval) list"

text \<open>\<^verbatim>\<open>{**payload, "exp": exp}\<close>: an existing key keeps its place and takes the new value,
  a new key goes last.\<close>

fun dict_set :: "string \<Rightarrow> jval \<Rightarrow> pydict \<Rightarrow> pydict" where
  "dict_set k v [] = [(k, v)]"
| "dict_set k v ((k', v') # d) = (if k' = k then (k, v) # d else (k', v') # dict_set k v d)"

text \<open>
  The exceptions that can leave \<^verbatim>\<open>jwt.decode\<close>: those of the token library, of which all
  but \<open>InvalidKeyError\<close> are subclasses of \<open>InvalidTokenError\<close>, and the built-in exceptions
  raised by \<^verbatim>\<open>int()\<close>.
\<close>

datatype jwt_exc =
    ExpiredSignatureError
  | InvalidSignatureError
  | DecodeError
  | InvalidAlgorithmError
  | InvalidClaimError
  | InvalidKeyError
  | ValueError
  | TypeError
  | OverflowError

fun is_InvalidTokenError :: "jwt_exc \<Rightarrow> bool" where
  "is_InvalidTokenError ExpiredSignatureError = True"
| "is_InvalidTokenError InvalidSignatureError = True"
| "is_InvalidTokenError DecodeError = True"
| "is_InvalidTokenError InvalidAlgorithmError = True"
| "is_InvalidTokenError InvalidClaimError = True"
| "is_InvalidTokenError InvalidKeyError = False"
| "is_InvalidTokenError ValueError = False"
| "is_InvalidTokenError TypeError = False"
| "is_InvalidTokenError OverflowError = False"

text \<open>
  \<^verbatim>\<open>int(x)\<close> on a JSON value. A string is stripped, may carry one sign, and is a run of
  decimal digits with single underscores allowed between digits; more than 4300 digits are
  refused. A float is truncated towards zero.
\<close>

definition is_digit :: "char \<Rightarrow> bool" where
  "is_digit c = (48 \<le> (of_char c :: nat) \<and> (of_char c :: nat) \<le> 57)"

fun parse_digits :: "string \<Rightarrow> bool \<Rightarrow> int \<Rightarrow> int option" where
  "parse_digits [] after_digit acc = (if after_digit then Some acc else None)"
| "parse_digits (c # cs) after_digit acc =
     (if is_digit c then parse_digits cs True (acc * 10 + (of_char c - 48))
      else if c = CHR ''_'' \<and> after_digit then parse_digits cs False acc
      else None)"

definition INT_MAX_STR_DIGITS :: nat where
  "INT_MAX_STR_DIGITS = 4300"

definition py_int_of_string :: "string \<Rightarrow> int option" where
  "py_int_of_string s =
     (let t = py_strip s in
      if INT_MAX_STR_DIGITS < length (filter is_digit t) then None
      else (case t of
              [] \<Rightarrow> None
            | c # cs \<Rightarrow>
                if c = CHR ''+'' then parse_digits cs False 0
                else if c = CHR ''-'' then map_option uminus (parse_digits cs False 0)
                else parse_digits t False 0))"

fun py_int :: "jval \<Rightarrow> jwt_exc + int" where
  "py_int JNull = Inl TypeError"
| "py_int (JBool b) = Inr (if b then 1 else 0)"
| "py_int (JInt n) = Inr n"
| "py_int (JFloat (FFinite m e)) =
     Inr (if 0 \<le> e then m * 2 ^ nat e
          else if 0 \<le> m then m div 2 ^ nat (- e)
          else - ((- m) div 2 ^ nat (- e)))"
| "py_int (JFloat FPosInf) = Inl OverflowError"
| "py_int (JFloat FNegInf) = Inl OverflowError"
| "py_int (JFloat FNaN) = Inl ValueError"
| "py_int (JStr s) = (case py_int_of_string s of None \<Rightarrow> Inl ValueError | Some n \<Rightarrow> Inr n)"
| "py_int (JNested s) = Inl TypeError"

text \<open>
  The token library (PyJWT) is an external collaborator of the repository. Its compact
  serialisation and its keyed hash are parameters: \<open>lib_dumps\<close> writes a signed
  structure as a token string, \<open>lib_loads\<close> reads one back (\<open>None\<close> for a string that is
  not a well-formed token with a JSON object as payload), and \<open>lib_hmac key alg payload\<close>
  is the signature. The validation of the registered claims other than \<open>exp\<close> is a
  parameter as well, in two parts, each giving the exception it raises, if any:
  \<open>lib_validate_before\<close> for the claims checked before \<open>exp\<close> (issued-at, not-before) and
  \<open>lib_validate_after\<close> for those checked after it (issuer, audience). The secret is taken
  to be a key the library accepts for its HMAC algorithms.
\<close>

record jws =
  jws_alg :: string
  jws_payload :: pydict
  jws_sig :: string

record jwt_lib =
  lib_dumps :: "jws \<Rightarrow> string"
  lib_loads :: "string \<Rightarrow> jws option"
  lib_hmac :: "string \<Rightarrow> string \<Rightarrow> pydict \<Rightarrow> string"
  lib_validate_before :: "pydict \<Rightarrow> int \<Rightarrow> jwt_exc option"
  lib_validate_after :: "pydict \<Rightarrow> int \<Rightarrow> jwt_exc option"

definition jwt_encode :: "jwt_lib \<Rightarrow> pydict \<Rightarrow> string \<Rightarrow> string \<Rightarrow> string" where
  "jwt_encode lib data key alg =
     lib_dumps lib \<lparr>jws_alg = alg, jws_payload = data, jws_sig = lib_hmac lib key alg data\<rparr>"

text \<open>
  The validation of \<open>exp\<close> at time \<open>now\<close> (seconds): the claim is converted with
  \<^verbatim>\<open>int()\<close>, whose \<open>ValueError\<close> becomes a \<open>DecodeError\<close> and whose other exceptions pass
  through; an expiry that is not ahead is an \<open>ExpiredSignatureError\<close>.
\<close>

definition validate_exp :: "pydict \<Rightarrow> int \<Rightarrow> jwt_exc option" where
  "validate_exp payload now =
     (case map_of payload ''exp'' of
        None \<Rightarrow> None
      | Some v \<Rightarrow>
          (case py_int v of
             Inl e \<Rightarrow> if e = ValueError then Some DecodeError else Some e
           | Inr n \<Rightarrow> if n \<le> now then Some ExpiredSignatureError else None))"

text \<open>
  \<^verbatim>\<open>jwt.decode(token, key, algorithms=...)\<close> at time \<open>now\<close>: malformed token, algorithm
  not allowed, signature mismatch, then the registered claims in the library's order.
\<close>

definition jwt_decode :: "jwt_lib \<Rightarrow> string \<Rightarrow> string \<Rightarrow> string list \<Rightarrow> int \<Rightarrow> jwt_exc + pydict" where
  "jwt_decode lib token key algs now =
     (case lib_loads lib token of
        None \<Rightarrow> Inl DecodeError
      | Some j \<Rightarrow>
          if jws_alg j \<notin> set algs then Inl InvalidAlgorithmError
          else if jws_sig j \<noteq> lib_hmac lib key (jws_alg j) (jws_payload j)
            then Inl InvalidSignatureError
          else (case lib_validate_before lib (jws_payload j) now of
                  Some e \<Rightarrow> Inl e
                | None \<Rightarrow>
                    (case validate_exp (jws_payload j) now of
                       Some e \<Rightarrow> Inl e
                     | None \<Rightarrow>
                         (case lib_validate_after lib (jws_payload j) now of
                            Some e \<Rightarrow> Inl e
                          | None \<Rightarrow> Inr (jws_payload j)))))"

definition JWT_ALG :: string where
  "JWT_ALG = ''HS256''"

definition JWT_EXPIRE_HOURS :: int where
  "JWT_EXPIRE_HOURS = 24"

text \<open>\<open>create_jwt\<close>, called at time \<open>now\<close> with the server secret.\<close>

definition create_jwt :: "jwt_lib \<Rightarrow> string \<Rightarrow> int \<Rightarrow> pydict \<Rightarrow> string" where
  "create_jwt lib secret now payload =
     (let exp = now + JWT_EXPIRE_HOURS * 3600;
          data = dict_set ''exp'' (JInt exp) payload
      in jwt_encode lib data secret JWT_ALG)"

text \<open>
  \<open>decode_jwt\<close>: the two \<^verbatim>\<open>except\<close> clauses in the source's order; an exception that
  neither catches leaves the function (\<open>Inl\<close>).
\<close>

definition decode_jwt :: "jwt_lib \<Rightarrow> string \<Rightarrow> int \<Rightarrow> string \<Rightarrow> jwt_exc + pydict option" where
  "decode_jwt lib secret now token =
     (case jwt_decode lib token secret [JWT_ALG] now of
        Inr d \<Rightarrow> Inr (Some d)
      | Inl e \<Rightarrow>
          if e = ExpiredSignatureError then Inr None
          else if is_InvalidTokenError e then Inr None
          else Inl e)"

section \<open>The auth gate (app.py)\<close>

text \<open>
  A request, as far as the gate reads it: the value the framework finds for the
  \<^verbatim>\<open>Authorization\<close> header, if the request has one.
\<close>

record request =
  authorization :: "string option"

record response =
  status :: nat
  body :: pydict

datatype app_exc = JwtExc jwt_exc | KeyError string

definition get_token_from_header :: "request \<Rightarrow> string option" where
  "get_token_from_header req =
     (let auth = (case authorization req of None \<Rightarrow> [] | Some a \<Rightarrow> a)
      in if py_startswith (py_lower auth) ''bearer '' then Some (drop 7 auth) else None)"

text \<open>
  What one guarded request does: the calls of the verifier and of the wrapped handler, in
  order, the value left in \<^verbatim>\<open>g.user\<close>, and the response or the exception that leaves
  the wrapper.
\<close>

datatype gate_event = VerifierCalled string | HandlerRan pydict

record gate_result =
  outcome :: "app_exc + response"
  events :: "gate_event list"
  g_user :: "pydict option"

definition unauthorized :: response where
  "unauthorized = \<lparr>status = 401, body = [(''error'', JStr ''unauthorized'')]\<rparr>"

text \<open>Python truthiness of \<^verbatim>\<open>data\<close>: \<^verbatim>\<open>None\<close> and the empty dictionary are false.\<close>

fun truthy_dict :: "pydict option \<Rightarrow> bool" where
  "truthy_dict None = False"
| "truthy_dict (Some d) = (d \<noteq> [])"

definition require_auth ::
  "jwt_lib \<Rightarrow> string \<Rightarrow> int \<Rightarrow> (pydict \<Rightarrow> app_exc + response) \<Rightarrow> request \<Rightarrow> gate_result" where
  "require_auth lib secret now fn req =
     (let token = get_token_from_header req;
          called = (case token of None \<Rightarrow> [] | Some t \<Rightarrow> if t = [] then [] else [VerifierCalled t]);
          data = (case token of
                    None \<Rightarrow> Inr None
                  | Some t \<Rightarrow> if t = [] then Inr None else decode_jwt lib secret now t)
      in case data of
           Inl e \<Rightarrow> \<lparr>outcome = Inl (JwtExc e), events = called, g_user = None\<rparr>
         | Inr d \<Rightarrow>
             if \<not> truthy_dict d
             then \<lparr>outcome = Inr unauthorized, events = called, g_user = None\<rparr>
             else \<lparr>outcome = fn (the d), events = called @ [HandlerRan (the d)], g_user = d\<rparr>)"

text \<open>The handler of \<^verbatim>\<open>GET /api/me\<close>, reading \<^verbatim>\<open>g.user\<close>.\<close>

definition me :: "pydict \<Rightarrow> app_exc + response" where
  "me user =
     (case map_of user ''uid'' of
        None \<Rightarrow> Inl (KeyError ''uid'')
      | Some u \<Rightarrow>
          (case map_of user ''email'' of
             None \<Rightarrow> Inl (KeyError ''email'')
           | Some e \<Rightarrow> Inr \<lparr>status = 200, body = [(''uid'', u), (''email'', e)]\<rparr>))"

definition api_me :: "jwt_lib \<Rightarrow> string \<Rightarrow> int \<Rightarrow> request \<Rightarrow> gate_result" where
  "api_me lib secret now req = require_auth lib secret now me req"

section \<open>The data access helper (mysql_helper.py)\<close>

text \<open>
  Python exceptions as the helper sees them: the driver's \<^verbatim>\<open>pymysql.Error\<close>, any other
  \<^verbatim>\<open>Exception\<close>, and exceptions outside \<^verbatim>\<open>Exception\<close> (such as
  \<^verbatim>\<open>KeyboardInterrupt\<close>), which \<^verbatim>\<open>except Exception\<close> does not catch.
\<close>

datatype py_exc = MySqlError string | PyException string | PyBaseException string

fun is_Exception :: "py_exc \<Rightarrow> bool" where
  "is_Exception (PyBaseException m) = False"
| "is_Exception _ = True"

text \<open>
  Calls made on a cursor by the body of a cursor scope, with the statement and its
  parameters (\<open>None\<close> is SQL NULL), and the calls the helper makes on the driver, in the
  order they happen. \<open>NonQuery\<close> records an entry into \<open>execute_non_query\<close>.
\<close>

datatype cursor_call =
    Execute string "string option list"
  | ExecuteMany string "string option list list"

datatype db_event =
    Connect
  | OpenCursor
  | OnCursor cursor_call
  | Commit
  | Rollback
  | CloseCursor
  | NonQuery string

text \<open>
  The driver and the database engine behind it are external: what each driver call does to
  the engine state \<open>'db\<close>, and whether it raises, are parameters.
\<close>

record 'db driver =
  drv_connect :: "py_exc option"
  drv_cursor :: "py_exc option"
  drv_execute :: "string \<Rightarrow> string option list \<Rightarrow> 'db \<Rightarrow> py_exc + (nat \<times> 'db)"
  drv_executemany :: "string \<Rightarrow> string option list list \<Rightarrow> 'db \<Rightarrow> py_exc + (nat \<times> 'db)"
  drv_has_table :: "'db \<Rightarrow> string option \<Rightarrow> string \<Rightarrow> py_exc + bool"
  drv_commit :: "'db \<Rightarrow> py_exc + 'db"
  drv_rollback :: "'db \<Rightarrow> py_exc + 'db"
  drv_close :: "py_exc option"

text \<open>
  The helper object: whether \<^verbatim>\<open>self.connection\<close> is set and open, the engine state
  reached through it, and the driver calls so far.
\<close>

record 'db helper =
  conn_open :: bool
  db :: 'db
  trace :: "db_event list"

definition log_event :: "db_event \<Rightarrow> 'db helper \<Rightarrow> 'db helper" where
  "log_event e h = h\<lparr>trace := trace h @ [e]\<rparr>"

text \<open>\<open>_get_connection\<close>: connects only when there is no open connection.\<close>

definition get_connection :: "'db driver \<Rightarrow> 'db helper \<Rightarrow> (py_exc + unit) \<times> 'db helper" where
  "get_connection drv h =
     (if \<not> conn_open h then
        (case drv_connect drv of
           Some e \<Rightarrow> (Inl e, log_event Connect h)
         | None \<Rightarrow> (Inr (), (log_event Connect h)\<lparr>conn_open := True\<rparr>))
      else (Inr (), h))"

text \<open>The \<^verbatim>\<open>finally\<close> clause: close the cursor if one was opened.\<close>

definition finally_close ::
  "'db driver \<Rightarrow> bool \<Rightarrow> (py_exc + 'a) \<Rightarrow> 'db helper \<Rightarrow> (py_exc + 'a) \<times> 'db helper" where
  "finally_close drv opened r h =
     (if opened then
        (case drv_close drv of
           Some e \<Rightarrow> (Inl e, log_event CloseCursor h)
         | None \<Rightarrow> (r, log_event CloseCursor h))
      else (r, h))"

text \<open>The \<^verbatim>\<open>except Exception\<close> clause: roll back and re-raise; then the
  \<^verbatim>\<open>finally\<close> clause.\<close>

definition on_exception ::
  "'db driver \<Rightarrow> bool \<Rightarrow> py_exc \<Rightarrow> 'db helper \<Rightarrow> (py_exc + 'a) \<times> 'db helper" where
  "on_exception drv opened e h =
     (if is_Exception e then
        (case drv_rollback drv (db h) of
           Inl e' \<Rightarrow> finally_close drv opened (Inl e') (log_event Rollback h)
         | Inr d \<Rightarrow> finally_close drv opened (Inl e) ((log_event Rollback h)\<lparr>db := d\<rparr>))
      else finally_close drv opened (Inl e) h)"

text \<open>
  \<open>_get_cursor\<close> around a body. The body works on the cursor: it maps the engine state to
  its result or exception, the new engine state, and the cursor calls it made.
\<close>

definition get_cursor ::
  "'db driver \<Rightarrow> ('db \<Rightarrow> (py_exc + 'a) \<times> 'db \<times> cursor_call list) \<Rightarrow> 'db helper
     \<Rightarrow> (py_exc + 'a) \<times> 'db helper" where
  "get_cursor drv block h =
     (case get_connection drv h of
        (Inl e, h1) \<Rightarrow> (Inl e, h1)
      | (Inr u, h1) \<Rightarrow>
          (let h2 = log_event OpenCursor h1 in
           case drv_cursor drv of
             Some e \<Rightarrow> on_exception drv False e h2
           | None \<Rightarrow>
               (case block (db h2) of
                  (r, d, calls) \<Rightarrow>
                    (let h3 = h2\<lparr>db := d, trace := trace h2 @ map OnCursor calls\<rparr> in
                     case r of
                       Inl e \<Rightarrow> on_exception drv True e h3
                     | Inr v \<Rightarrow>
                         (let h4 = log_event Commit h3 in
                          case drv_commit drv (db h4) of
                            Inl e \<Rightarrow> on_exception drv True e h4
                          | Inr d' \<Rightarrow> finally_close drv True (Inr v) (h4\<lparr>db := d'\<rparr>))))))"

text \<open>The bodies used by the query methods.\<close>

definition execute_body ::
  "'db driver \<Rightarrow> string \<Rightarrow> string option list \<Rightarrow> 'db \<Rightarrow> (py_exc + nat) \<times> 'db \<times> cursor_call list" where
  "execute_body drv sql params d =
     (case drv_execute drv sql params d of
        Inl e \<Rightarrow> (Inl e, d, [Execute sql params])
      | Inr (n, d') \<Rightarrow> (Inr n, d', [Execute sql params]))"

definition executemany_body ::
  "'db driver \<Rightarrow> string \<Rightarrow> string option list list \<Rightarrow> 'db \<Rightarrow> (py_exc + nat) \<times> 'db \<times> cursor_call list" where
  "executemany_body drv sql param_list d =
     (case drv_executemany drv sql param_list d of
        Inl e \<Rightarrow> (Inl e, d, [ExecuteMany sql param_list])
      | Inr (n, d') \<Rightarrow> (Inr n, d', [ExecuteMany sql param_list]))"

text \<open>
  \<open>execute_non_query\<close>. Its \<^verbatim>\<open>except pymysql.Error\<close> clause writes to the log and
  re-raises, so the exception passes through unchanged.
\<close>

definition execute_non_query ::
  "'db driver \<Rightarrow> string \<Rightarrow> string option list \<Rightarrow> 'db helper \<Rightarrow> (py_exc + nat) \<times> 'db helper" where
  "execute_non_query drv sql params h =
     get_cursor drv (execute_body drv sql params) (log_event (NonQuery sql) h)"

definition execute_many ::
  "'db driver \<Rightarrow> string \<Rightarrow> string option list list \<Rightarrow> 'db helper \<Rightarrow> (py_exc + nat) \<times> 'db helper" where
  "execute_many drv sql param_list h =
     (if param_list = [] then (Inr 0, h)
      else get_cursor drv (executemany_body drv sql param_list) h)"

definition CATALOG_QUERY :: string where
  "CATALOG_QUERY = ''SELECT 1 FROM information_schema.TABLES WHERE TABLE_SCHEMA = COALESCE(%s, DATABASE()) AND TABLE_NAME = %s LIMIT 1''"

text \<open>
  \<open>table_exists\<close>: the catalog query (written here on one line) runs inside the cursor
  scope; the row is read from the cursor's buffered result after the scope has ended.
\<close>

definition table_exists_body ::
  "'db driver \<Rightarrow> string \<Rightarrow> string option \<Rightarrow> 'db \<Rightarrow> (py_exc + bool) \<times> 'db \<times> cursor_call list" where
  "table_exists_body drv table_name schema d =
     (case drv_has_table drv d schema table_name of
        Inl e \<Rightarrow> (Inl e, d, [Execute CATALOG_QUERY [schema, Some table_name]])
      | Inr b \<Rightarrow> (Inr b, d, [Execute CATALOG_QUERY [schema, Some table_name]]))"

definition table_exists ::
  "'db driver \<Rightarrow> string \<Rightarrow> string option \<Rightarrow> 'db helper \<Rightarrow> (py_exc + bool) \<times> 'db helper" where
  "table_exists drv table_name schema h =
     get_cursor drv (table_exists_body drv table_name schema) h"

text \<open>\<open>ensure_table\<close>; \<^verbatim>\<open>if table_name:\<close> is false for \<^verbatim>\<open>None\<close> and for the empty string.\<close>

definition run_create ::
  "'db driver \<Rightarrow> string \<Rightarrow> 'db helper \<Rightarrow> (py_exc + unit) \<times> 'db helper" where
  "run_create drv create_table_sql h =
     (case execute_non_query drv create_table_sql [] h of
        (Inl e, h') \<Rightarrow> (Inl e, h')
      | (Inr n, h') \<Rightarrow> (Inr (), h'))"

definition ensure_table ::
  "'db driver \<Rightarrow> string \<Rightarrow> string option \<Rightarrow> string option \<Rightarrow> 'db helper
     \<Rightarrow> (py_exc + unit) \<times> 'db helper" where
  "ensure_table drv create_table_sql table_name schema h =
     (case table_name of
        None \<Rightarrow> run_create drv create_table_sql h
      | Some t \<Rightarrow>
          if t = [] then run_create drv create_table_sql h
          else
            (case table_exists drv t schema h of
               (Inl e, h1) \<Rightarrow> (Inl e, h1)
             | (Inr present, h1) \<Rightarrow>
                 if present then (Inr (), h1) else run_create drv create_table_sql h1))"

text \<open>\<open>run_script\<close>: the loop over the lines, the rest of the buffer, then one
  \<open>execute_non_query\<close> per statement; an exception ends the run.\<close>

definition skipped_line :: "string \<Rightarrow> bool" where
  "skipped_line line =
     (let l = py_strip line in l = [] \<or> py_startswith l ''--'' \<or> py_startswith l ''#'')"

definition ends_statement :: "string \<Rightarrow> bool" where
  "ends_statement line = py_endswith (py_strip line) '';''"

definition newline :: string where
  "newline = [char_of (10 :: nat)]"

fun script_loop :: "string list \<Rightarrow> string list \<Rightarrow> string list \<Rightarrow> string list \<times> string list" where
  "script_loop [] statements buff = (statements, buff)"
| "script_loop (line # rest) statements buff =
     (if skipped_line line then script_loop rest statements buff
      else if ends_statement line
        then script_loop rest (statements @ [py_join newline (buff @ [line])]) []
      else script_loop rest statements (buff @ [line]))"

definition script_statements :: "string \<Rightarrow> string list" where
  "script_statements sql_text =
     (case script_loop (py_splitlines sql_text) [] [] of
        (statements, buff) \<Rightarrow>
          if buff \<noteq> [] then statements @ [py_join newline buff] else statements)"

fun execute_each :: "'db driver \<Rightarrow> string list \<Rightarrow> 'db helper \<Rightarrow> (py_exc + unit) \<times> 'db helper" where
  "execute_each drv [] h = (Inr (), h)"
| "execute_each drv (stmt # rest) h =
     (case execute_non_query drv stmt [] h of
        (Inl e, h') \<Rightarrow> (Inl e, h')
      | (Inr n, h') \<Rightarrow> execute_each drv rest h')"

definition run_script :: "'db driver \<Rightarrow> string \<Rightarrow> 'db helper \<Rightarrow> (py_exc + unit) \<times> 'db helper" where
  "run_script drv sql_text h = execute_each drv (script_statements sql_text) h"

text \<open>Reading a trace: the connect call a scope makes when no connection is open, and the
  statements handed to \<open>execute_non_query\<close>, in order.\<close>

definition connect_events :: "'db helper \<Rightarrow> db_event list" where
  "connect_events h = (if conn_open h then [] else [Connect])"

fun executor_calls :: "db_event list \<Rightarrow> string list" where
  "executor_calls [] = []"
| "executor_calls (NonQuery sql # es) = sql # executor_calls es"
| "executor_calls (e # es) = executor_calls es"

text \<open>
  The statements a trace shows as run on a cursor, with their parameters, in order, and
  what one statement that runs and is committed does to the engine state.
\<close>

fun cursor_executes :: "db_event list \<Rightarrow> (string \<times> string option list) list" where
  "cursor_executes [] = []"
| "cursor_executes (OnCursor (Execute sql params) # es) = (sql, params) # cursor_executes es"
| "cursor_executes (e # es) = cursor_executes es"

definition apply_statement :: "'db driver \<Rightarrow> string \<Rightarrow> 'db \<Rightarrow> 'db" where
  "apply_statement drv sql d =
     (case drv_execute drv sql [] d of
        Inl e \<Rightarrow> d
      | Inr (n, d') \<Rightarrow> (case drv_commit drv d' of Inl e \<Rightarrow> d' | Inr d'' \<Rightarrow> d''))"

text \<open>
  The partition of a script in the words of its description: the lines that are not
  skipped, cut after every line whose stripped content ends with a semicolon.
\<close>

definition kept_lines :: "string \<Rightarrow> string list" where
  "kept_lines sql_text = filter (\<lambda>line. \<not> skipped_line line) (py_splitlines sql_text)"

fun split_at_terminators :: "string list \<Rightarrow> string list \<Rightarrow> string list list" where
  "split_at_terminators cur [] = (if cur = [] then [] else [cur])"
| "split_at_terminators cur (line # rest) =
     (if ends_statement line then (cur @ [line]) # split_at_terminators [] rest
      else split_at_terminators (cur @ [line]) rest)"

section \<open>Registration (app.py)\<close>

text \<open>
  The \<^verbatim>\<open>users\<close> table as the handler uses it: rows with an auto-incremented id, in
  insertion order. The \<^verbatim>\<open>SELECT\<close> by email compares the stored and the given email for
  equality.
\<close>

record user_row =
  u_id :: nat
  u_username :: string
  u_email :: string
  u_password_hash :: string

record store =
  users :: "user_row list"
  next_id :: nat

definition select_id_by_email :: "store \<Rightarrow> string \<Rightarrow> nat list" where
  "select_id_by_email st e = map u_id (filter (\<lambda>r. u_email r = e) (users st))"

definition insert_user :: "store \<Rightarrow> string \<Rightarrow> string \<Rightarrow> string \<Rightarrow> store" where
  "insert_user st name e h =
     \<lparr>users = users st @ [\<lparr>u_id = next_id st, u_username = name, u_email = e, u_password_hash = h\<rparr>],
      next_id = next_id st + 1\<rparr>"

text \<open>The JSON body of a register request; a missing key is \<open>None\<close>.\<close>

record register_body =
  r_email :: "string option"
  r_password :: "string option"
  r_username :: "string option"

text \<open>\<^verbatim>\<open>data.get(key) or ""\<close>\<close>

fun or_empty :: "string option \<Rightarrow> string" where
  "or_empty None = []"
| "or_empty (Some s) = s"

definition normalize_email :: "string option \<Rightarrow> string" where
  "normalize_email e = py_lower (py_strip (or_empty e))"

text \<open>\<^verbatim>\<open>email.split("@")[0] if "@" in email else email\<close>\<close>

definition local_part :: "string \<Rightarrow> string" where
  "local_part e = (if CHR ''@'' \<in> set e then takeWhile (\<lambda>c. c \<noteq> CHR ''@'') e else e)"

text \<open>
  \<open>register\<close>, with the salted password hash of the framework as a parameter. It returns
  the response and the table after the request.
\<close>

definition register :: "(string \<Rightarrow> string) \<Rightarrow> register_body \<Rightarrow> store \<Rightarrow> response \<times> store" where
  "register gen_hash data st =
     (let email = normalize_email (r_email data);
          password = or_empty (r_password data);
          username = py_strip (if or_empty (r_username data) \<noteq> [] then or_empty (r_username data)
                               else local_part email)
      in if email = [] \<or> password = []
         then (\<lparr>status = 400, body = [(''error'', JStr ''email and password required'')]\<rparr>, st)
         else if select_id_by_email st email \<noteq> []
         then (\<lparr>status = 409, body = [(''error'', JStr ''email already exists'')]\<rparr>, st)
         else (\<lparr>status = 200, body = [(''message'', JStr ''ok'')]\<rparr>,
               insert_user st username email (gen_hash password)))"

section \<open>A small token library for concrete runs\<close>

text \<open>
  An instance of the library parameters used to run the definitions on concrete requests.
  Its codec knows five payloads: a user's claims, the same claims with an expiry in the
  past, with the expiry as a numeric string, with a null expiry, and the empty claim set.
  Its keyed hash appends the key to a fixed tag, and it has no registered claims to check
  besides \<open>exp\<close>.
\<close>

definition demo_claims :: pydict where
  "demo_claims = [(''uid'', JInt 7), (''email'', JStr ''a@b.com''), (''exp'', JInt 86500)]"

definition demo_old_claims :: pydict where
  "demo_old_claims = [(''uid'', JInt 7), (''email'', JStr ''a@b.com''), (''exp'', JInt 50)]"

definition demo_str_claims :: pydict where
  "demo_str_claims = [(''uid'', JInt 7), (''email'', JStr ''a@b.com''), (''exp'', JStr ''86500'')]"

definition demo_null_claims :: pydict where
  "demo_null_claims = [(''uid'', JInt 7), (''email'', JStr ''a@b.com''), (''exp'', JNull)]"

definition demo_dumps :: "jws \<Rightarrow> string" where
  "demo_dumps j =
     (if jws_payload j = [] then ''e.''
      else if jws_payload j = demo_old_claims then ''o.''
      else if jws_payload j = demo_str_claims then ''s.''
      else if jws_payload j = demo_null_claims then ''n.''
      else ''u.'')
     @ jws_sig j"

definition demo_loads :: "string \<Rightarrow> jws option" where
  "demo_loads s =
     (if take 2 s = ''u.'' then Some \<lparr>jws_alg = ''HS256'', jws_payload = demo_claims, jws_sig = drop 2 s\<rparr>
      else if take 2 s = ''o.'' then Some \<lparr>jws_alg = ''HS256'', jws_payload = demo_old_claims, jws_sig = drop 2 s\<rparr>
      else if take 2 s = ''s.'' then Some \<lparr>jws_alg = ''HS256'', jws_payload = demo_str_claims, jws_sig = drop 2 s\<rparr>
      else if take 2 s = ''n.'' then Some \<lparr>jws_alg = ''HS256'', jws_payload = demo_null_claims, jws_sig = drop 2 s\<rparr>
      else if take 2 s = ''e.'' then Some \<lparr>jws_alg = ''HS256'', jws_payload = [], jws_sig = drop 2 s\<rparr>
      else None)"

definition demo_lib :: jwt_lib where
  "demo_lib = \<lparr>lib_dumps = demo_dumps, lib_loads = demo_loads,
                lib_hmac = (\<lambda>key alg payload. ''mac-'' @ key),
                lib_validate_before = (\<lambda>payload now. None),
                lib_validate_after = (\<lambda>payload now. None)\<rparr>"

section \<open>A token codec for concrete runs\<close>

text \<open>
  A second instance of the library parameters, with a codec that writes every signed
  structure and reads it back: numbers in unary, strings and lists with their length in
  front, one tag character per kind of JSON value.
\<close>

definition enc_nat :: "nat \<Rightarrow> string" where
  "enc_nat n = replicate n (CHR ''1'') @ ''0''"

fun dec_nat :: "string \<Rightarrow> (nat \<times> string) option" where
  "dec_nat [] = None"
| "dec_nat (c # cs) =
     (if c = CHR ''0'' then Some (0, cs)
      else if c = CHR ''1'' then map_option (\<lambda>(n, r). (Suc n, r)) (dec_nat cs)
      else None)"

definition enc_str :: "string \<Rightarrow> string" where
  "enc_str s = enc_nat (length s) @ s"

definition dec_str :: "string \<Rightarrow> (string \<times> string) option" where
  "dec_str s =
     (case dec_nat s of
        None \<Rightarrow> None
      | Some (n, r) \<Rightarrow> if n \<le> length r then Some (take n r, drop n r) else None)"

definition enc_int :: "int \<Rightarrow> string" where
  "enc_int i = (if i < 0 then CHR ''-'' else CHR ''+'') # enc_nat (nat \<bar>i\<bar>)"

fun dec_int :: "string \<Rightarrow> (int \<times> string) option" where
  "dec_int [] = None"
| "dec_int (c # cs) =
     (case dec_nat cs of
        None \<Rightarrow> None
      | Some (n, r) \<Rightarrow>
          if c = CHR ''-'' then Some (- int n, r)
          else if c = CHR ''+'' then Some (int n, r)
          else None)"

fun enc_jval :: "jval \<Rightarrow> string" where
  "enc_jval JNull = ''n''"
| "enc_jval (JBool b) = (if b then ''t'' else ''f'')"
| "enc_jval (JInt i) = CHR ''i'' # enc_int i"
| "enc_jval (JFloat (FFinite m e)) = CHR ''d'' # enc_int m @ enc_int e"
| "enc_jval (JFloat FPosInf) = ''p''"
| "enc_jval (JFloat FNegInf) = ''q''"
| "enc_jval (JFloat FNaN) = ''x''"
| "enc_jval (JStr s) = CHR ''s'' # enc_str s"
| "enc_jval (JNested s) = CHR ''a'' # enc_str s"

fun dec_jval :: "string \<Rightarrow> (jval \<times> string) option" where
  "dec_jval [] = None"
| "dec_jval (c # cs) =
     (if c = CHR ''n'' then Some (JNull, cs)
      else if c = CHR ''t'' then Some (JBool True, cs)
      else if c = CHR ''f'' then Some (JBool False, cs)
      else if c = CHR ''p'' then Some (JFloat FPosInf, cs)
      else if c = CHR ''q'' then Some (JFloat FNegInf, cs)
      else if c = CHR ''x'' then Some (JFloat FNaN, cs)
      else if c = CHR ''i'' then map_option (\<lambda>(i, r). (JInt i, r)) (dec_int cs)
      else if c = CHR ''d'' then
        (case dec_int cs of
           None \<Rightarrow> None
         | Some (m, r) \<Rightarrow> map_option (\<lambda>(e, r'). (JFloat (FFinite m e), r')) (dec_int r))
      else if c = CHR ''s'' then map_option (\<lambda>(s, r). (JStr s, r)) (dec_str cs)
      else if c = CHR ''a'' then map_option (\<lambda>(s, r). (JNested s, r)) (dec_str cs)
      else None)"

fun enc_items :: "pydict \<Rightarrow> string" where
  "enc_items [] = []"
| "enc_items ((k, v) # d) = enc_str k @ enc_jval v @ enc_items d"

fun dec_items :: "nat \<Rightarrow> string \<Rightarrow> (pydict \<times> string) option" where
  "dec_items 0 s = Some ([], s)"
| "dec_items (Suc n) s =
     (case dec_str s of
        None \<Rightarrow> None
      | Some (k, r) \<Rightarrow>
          (case dec_jval r of
             None \<Rightarrow> None
           | Some (v, r') \<Rightarrow> map_option (\<lambda>(d, r''). ((k, v) # d, r'')) (dec_items n r')))"

definition codec_dumps :: "jws \<Rightarrow> string" where
  "codec_dumps j =
     enc_str (jws_alg j) @ enc_str (jws_sig j) @ enc_nat (length (jws_payload j))
       @ enc_items (jws_payload j)"

definition codec_loads :: "string \<Rightarrow> jws option" where
  "codec_loads s =
     (case dec_str s of
        None \<Rightarrow> None
      | Some (a, r) \<Rightarrow>
          (case dec_str r of
             None \<Rightarrow> None
           | Some (g, r') \<Rightarrow>
               (case dec_nat r' of
                  None \<Rightarrow> None
                | Some (n, r'') \<Rightarrow>
                    (case dec_items n r'' of
                       None \<Rightarrow> None
                     | Some (d, rest) \<Rightarrow>
                         if rest = [] then Some \<lparr>jws_alg = a, jws_payload = d, jws_sig = g\<rparr>
                         else None))))"

definition codec_lib :: jwt_lib where
  "codec_lib = \<lparr>lib_dumps = codec_dumps, lib_loads = codec_loads,
                 lib_hmac = (\<lambda>key alg payload. ''mac-'' @ key),
                 lib_validate_before = (\<lambda>payload now. None),
                 lib_validate_after = (\<lambda>payload now. None)\<rparr>"

section \<open>A small driver for concrete runs\<close>

text \<open>
  An engine whose state is the list of its table names: \<^verbatim>\<open>CREATE TABLE t\<close> adds \<open>t\<close>,
  any other statement affects one row and leaves the catalog alone; no driver call raises.
\<close>

definition demo_execute :: "string \<Rightarrow> string option list \<Rightarrow> string list \<Rightarrow> py_exc + (nat \<times> string list)" where
  "demo_execute sql params d =
     (if take 13 sql = ''CREATE TABLE '' then Inr (0, d @ [drop 13 sql]) else Inr (1, d))"

definition demo_driver :: "string list driver" where
  "demo_driver =
     \<lparr>drv_connect = None, drv_cursor = None,
      drv_execute = demo_execute,
      drv_executemany = (\<lambda>sql param_list d. Inr (length param_list, d)),
      drv_has_table = (\<lambda>d schema table_name. Inr (table_name \<in> set d)),
      drv_commit = (\<lambda>d. Inr d), drv_rollback = (\<lambda>d. Inr d), drv_close = None\<rparr>"

definition fresh_helper :: "string list helper" where
  "fresh_helper = \<lparr>conn_open = False, db = [], trace = []\<rparr>"

text \<open>The same driver with a commit that raises, and a script with comments, a blank line,
  a statement over two lines and an unterminated last statement.\<close>

definition failing_commit_driver :: "string list driver" where
  "failing_commit_driver = demo_driver\<lparr>drv_commit := (\<lambda>d. Inl (MySqlError ''server has gone away''))\<rparr>"

definition demo_script :: string where
  "demo_script = ''-- schema\<newline>CREATE TABLE a\<newline> (x int);\<newline>\<newline># rows\<newline>INSERT 1; \<newline>DROP''"

text \<open>An empty \<^verbatim>\<open>users\<close> table and a stand-in for the password hash.\<close>

definition empty_store :: store where
  "empty_store = \<lparr>users = [], next_id = 1\<rparr>"

definition demo_hash :: "string \<Rightarrow> string" where
  "demo_hash password = ''pbkdf2:sha256$'' @ password"

text \<open>Register requests for concrete runs.\<close>

definition demo_register_padded :: register_body where
  "demo_register_padded = \<lparr>r_email = Some '' A@B.com '', r_password = Some ''pw'', r_username = None\<rparr>"

definition demo_register_plain :: register_body where
  "demo_register_plain = \<lparr>r_email = Some ''a@b.com'', r_password = Some ''other'', r_username = None\<rparr>"

definition demo_register_bob :: register_body where
  "demo_register_bob = \<lparr>r_email = Some ''Bob@Example.com'', r_password = Some ''pw'', r_username = None\<rparr>"

section \<open>Verified properties\<close>

subsection \<open>Tokens and the auth gate\<close>

lemma lower_Bearer: "py_lower ''Bearer '' = ''bearer ''"
  by code_simp

lemma dec_enc_nat: "dec_nat (enc_nat n @ r) = Some (n, r)"
  by (induction n) (auto simp: enc_nat_def)

lemma dec_enc_str: "dec_str (enc_str s @ r) = Some (s, r)"
  by (simp add: dec_str_def enc_str_def dec_enc_nat)

lemma dec_enc_int: "dec_int (enc_int i @ r) = Some (i, r)"
  by (simp add: enc_int_def dec_enc_nat)

lemma dec_enc_jval: "dec_jval (enc_jval v @ r) = Some (v, r)"
proof (cases v)
  case (JFloat x)
  then show ?thesis
    using dec_enc_int [of _ "enc_int _ @ r"]
    by (cases x) (simp_all add: dec_enc_int)
qed (simp_all add: dec_enc_int dec_enc_str)

lemma dec_enc_items: "dec_items (length d) (enc_items d @ r) = Some (d, r)"
  by (induction d) (auto simp: dec_enc_str dec_enc_jval)

lemma codec_roundtrip: "codec_loads (codec_dumps j) = Some j"
  using dec_enc_items [of "jws_payload j" "[]"]
  by (simp add: codec_loads_def codec_dumps_def dec_enc_str dec_enc_nat)

lemma codec_nonempty: "codec_dumps j \<noteq> []"
  by (simp add: codec_dumps_def enc_str_def enc_nat_def)

text \<open>
  C1. With a library whose codec reads back what it writes and never writes the empty
  string, a token issued by \<open>create_jwt\<close> for \<open>{uid, email}\<close> at time \<open>t0\<close> is accepted by
  \<open>decode_jwt\<close> at any time \<open>t1\<close> before its expiry \<open>t0 + 24 h\<close>: the claims returned are the
  original uid and email together with that expiry, and \<^verbatim>\<open>GET /api/me\<close> with the token as
  bearer answers 200 with exactly that uid and email. The library's checks of the other
  registered claims are taken to pass on these claims, which hold none of them.
\<close>

theorem create_jwt_roundtrip:
  fixes uid :: int and email :: string
  assumes codec: "\<And>j. lib_loads lib (lib_dumps lib j) = Some j"
    and nonempty: "\<And>j. lib_dumps lib j \<noteq> []"
    and before: "lib_validate_before lib
                   [(''uid'', JInt uid), (''email'', JStr email), (''exp'', JInt (t0 + 86400))] t1 = None"
    and after: "lib_validate_after lib
                   [(''uid'', JInt uid), (''email'', JStr email), (''exp'', JInt (t0 + 86400))] t1 = None"
    and live: "t1 < t0 + 86400"
  shows "decode_jwt lib secret t1 (create_jwt lib secret t0 [(''uid'', JInt uid), (''email'', JStr email)])
           = Inr (Some [(''uid'', JInt uid), (''email'', JStr email), (''exp'', JInt (t0 + 86400))])
       \<and> outcome (api_me lib secret t1
             \<lparr>authorization = Some (''Bearer '' @ create_jwt lib secret t0
                                        [(''uid'', JInt uid), (''email'', JStr email)])\<rparr>)
           = Inr \<lparr>status = 200, body = [(''uid'', JInt uid), (''email'', JStr email)]\<rparr>"
proof -
  let ?data = "[(''uid'', JInt uid), (''email'', JStr email), (''exp'', JInt (t0 + 86400))]"
  let ?issued = "\<lparr>jws_alg = JWT_ALG, jws_payload = ?data, jws_sig = lib_hmac lib secret JWT_ALG ?data\<rparr>"
  let ?tok = "create_jwt lib secret t0 [(''uid'', JInt uid), (''email'', JStr email)]"
  have tok: "?tok = lib_dumps lib ?issued"
    by (simp add: create_jwt_def jwt_encode_def JWT_EXPIRE_HOURS_def Let_def)
  have exp: "validate_exp ?data t1 = None"
    using live by (simp add: validate_exp_def)
  have dec: "jwt_decode lib (lib_dumps lib ?issued) secret [JWT_ALG] t1 = Inr ?data"
    using codec [of ?issued] before after exp by (simp add: jwt_decode_def)
  have d: "decode_jwt lib secret t1 ?tok = Inr (Some ?data)"
    unfolding tok using dec by (simp add: decode_jwt_def)
  have ne: "?tok \<noteq> []"
    unfolding tok by (rule nonempty)
  have t: "get_token_from_header \<lparr>authorization = Some (''Bearer '' @ ?tok)\<rparr> = Some ?tok"
    using lower_Bearer by (simp add: get_token_from_header_def py_startswith_def py_lower_def)
  have m: "outcome (api_me lib secret t1 \<lparr>authorization = Some (''Bearer '' @ ?tok)\<rparr>)
      = Inr \<lparr>status = 200, body = [(''uid'', JInt uid), (''email'', JStr email)]\<rparr>"
    using d t ne by (simp add: api_me_def require_auth_def me_def)
  show ?thesis using d m by (rule conjI)
qed

theorem create_jwt_roundtrip_witness:
  "decode_jwt codec_lib ''k'' 200 (create_jwt codec_lib ''k'' 100 [(''uid'', JInt 7), (''email'', JStr ''a@b.com'')])
     = Inr (Some [(''uid'', JInt 7), (''email'', JStr ''a@b.com''), (''exp'', JInt 86500)])
   \<and> outcome (api_me codec_lib ''k'' 200
        \<lparr>authorization = Some (''Bearer '' @ create_jwt codec_lib ''k'' 100
                                   [(''uid'', JInt 7), (''email'', JStr ''a@b.com'')])\<rparr>)
     = Inr \<lparr>status = 200, body = [(''uid'', JInt 7), (''email'', JStr ''a@b.com'')]\<rparr>"
proof -
  have codec: "\<And>j. lib_loads codec_lib (lib_dumps codec_lib j) = Some j"
    by (simp add: codec_lib_def codec_roundtrip)
  have nonempty: "\<And>j. lib_dumps codec_lib j \<noteq> []"
    by (simp add: codec_lib_def codec_nonempty)
  have before: "lib_validate_before codec_lib
      [(''uid'', JInt 7), (''email'', JStr ''a@b.com''), (''exp'', JInt (100 + 86400))] 200 = None"
    by (simp add: codec_lib_def)
  have after: "lib_validate_after codec_lib
      [(''uid'', JInt 7), (''email'', JStr ''a@b.com''), (''exp'', JInt (100 + 86400))] 200 = None"
    by (simp add: codec_lib_def)
  have live: "(200::int) < 100 + 86400" by simp
  have e: "(100::int) + 86400 = 86500" by simp
  show ?thesis
    using create_jwt_roundtrip [of codec_lib 7 "''a@b.com''" 100 200 "''k''", OF codec nonempty before after live]
    unfolding e .
qed

text \<open>
  C3, as stated, fails: a correctly signed token whose \<open>exp\<close> is null makes the library's
  \<^verbatim>\<open>int()\<close> raise a \<open>TypeError\<close>, which neither \<^verbatim>\<open>except\<close> clause catches.
\<close>

theorem decode_jwt_uncaught_counterexample:
  "lib_loads demo_lib ''n.mac-k''
     = Some \<lparr>jws_alg = ''HS256'',
             jws_payload = [(''uid'', JInt 7), (''email'', JStr ''a@b.com''), (''exp'', JNull)],
             jws_sig = lib_hmac demo_lib ''k'' ''HS256''
                         [(''uid'', JInt 7), (''email'', JStr ''a@b.com''), (''exp'', JNull)]\<rparr>
   \<and> decode_jwt demo_lib ''k'' 200 ''n.mac-k'' = Inl TypeError"
  by (simp add: decode_jwt_def jwt_decode_def validate_exp_def demo_lib_def demo_loads_def
      demo_null_claims_def JWT_ALG_def)

lemma py_int_raises: "py_int v = Inl e \<Longrightarrow> e = ValueError \<or> e = TypeError \<or> e = OverflowError"
  by (cases v rule: py_int.cases) (auto split: option.splits)

text \<open>
  C3, amended. \<open>decode_jwt\<close> returns the claims whenever the library's decode returns
  them, \<open>None\<close> whenever it raises an \<open>InvalidTokenError\<close>, and lets any other exception
  reach its caller. So it returns \<open>None\<close> for a malformed token, for an algorithm or
  signature that does not match, and for an expiry in the past, also under a correct
  signature; it returns the embedded claims when the signature is valid and the expiry, as
  \<^verbatim>\<open>int()\<close> reads it, lies ahead; and it raises when \<^verbatim>\<open>int()\<close> raises anything but a
  \<open>ValueError\<close> on the expiry of a correctly signed token.
\<close>

theorem decode_jwt_catches_token_errors:
  "(\<forall>d. jwt_decode lib token secret [JWT_ALG] now = Inr d
        \<longrightarrow> decode_jwt lib secret now token = Inr (Some d))
   \<and> (\<forall>e. jwt_decode lib token secret [JWT_ALG] now = Inl e \<and> is_InvalidTokenError e
        \<longrightarrow> decode_jwt lib secret now token = Inr None)
   \<and> (\<forall>e. jwt_decode lib token secret [JWT_ALG] now = Inl e \<and> \<not> is_InvalidTokenError e
        \<longrightarrow> decode_jwt lib secret now token = Inl e)
   \<and> (lib_loads lib token = None \<longrightarrow> decode_jwt lib secret now token = Inr None)
   \<and> (\<forall>j. lib_loads lib token = Some j
          \<and> (jws_alg j \<noteq> JWT_ALG \<or> jws_sig j \<noteq> lib_hmac lib secret (jws_alg j) (jws_payload j))
        \<longrightarrow> decode_jwt lib secret now token = Inr None)
   \<and> (\<forall>j v n. lib_loads lib token = Some j \<and> jws_alg j = JWT_ALG
          \<and> jws_sig j = lib_hmac lib secret JWT_ALG (jws_payload j)
          \<and> lib_validate_before lib (jws_payload j) now = None
          \<and> lib_validate_after lib (jws_payload j) now = None
          \<and> map_of (jws_payload j) ''exp'' = Some v \<and> py_int v = Inr n \<and> now < n
        \<longrightarrow> decode_jwt lib secret now token = Inr (Some (jws_payload j)))
   \<and> (\<forall>j v n. lib_loads lib token = Some j
          \<and> jws_sig j = lib_hmac lib secret (jws_alg j) (jws_payload j)
          \<and> (case lib_validate_before lib (jws_payload j) now of
                None \<Rightarrow> True | Some x \<Rightarrow> is_InvalidTokenError x)
          \<and> map_of (jws_payload j) ''exp'' = Some v \<and> py_int v = Inr n \<and> n < now
        \<longrightarrow> decode_jwt lib secret now token = Inr None)
   \<and> (\<forall>j v e. lib_loads lib token = Some j \<and> jws_alg j = JWT_ALG
          \<and> jws_sig j = lib_hmac lib secret JWT_ALG (jws_payload j)
          \<and> lib_validate_before lib (jws_payload j) now = None
          \<and> map_of (jws_payload j) ''exp'' = Some v \<and> py_int v = Inl e \<and> e \<noteq> ValueError
        \<longrightarrow> decode_jwt lib secret now token = Inl e)"
proof (intro conjI allI impI)
  fix d
  assume "jwt_decode lib token secret [JWT_ALG] now = Inr d"
  then show "decode_jwt lib secret now token = Inr (Some d)"
    by (simp add: decode_jwt_def)
next
  fix e
  assume "jwt_decode lib token secret [JWT_ALG] now = Inl e \<and> is_InvalidTokenError e"
  then show "decode_jwt lib secret now token = Inr None"
    by (simp add: decode_jwt_def)
next
  fix e
  assume "jwt_decode lib token secret [JWT_ALG] now = Inl e \<and> \<not> is_InvalidTokenError e"
  then show "decode_jwt lib secret now token = Inl e"
    by (auto simp: decode_jwt_def)
next
  assume "lib_loads lib token = None"
  then show "decode_jwt lib secret now token = Inr None"
    by (simp add: decode_jwt_def jwt_decode_def)
next
  fix j
  assume "lib_loads lib token = Some j
          \<and> (jws_alg j \<noteq> JWT_ALG \<or> jws_sig j \<noteq> lib_hmac lib secret (jws_alg j) (jws_payload j))"
  then show "decode_jwt lib secret now token = Inr None"
    by (auto simp: decode_jwt_def jwt_decode_def)
next
  fix j v n
  assume "lib_loads lib token = Some j \<and> jws_alg j = JWT_ALG
          \<and> jws_sig j = lib_hmac lib secret JWT_ALG (jws_payload j)
          \<and> lib_validate_before lib (jws_payload j) now = None
          \<and> lib_validate_after lib (jws_payload j) now = None
          \<and> map_of (jws_payload j) ''exp'' = Some v \<and> py_int v = Inr n \<and> now < n"
  then show "decode_jwt lib secret now token = Inr (Some (jws_payload j))"
    by (simp add: decode_jwt_def jwt_decode_def validate_exp_def)
next
  fix j v n
  assume a: "lib_loads lib token = Some j
          \<and> jws_sig j = lib_hmac lib secret (jws_alg j) (jws_payload j)
          \<and> (case lib_validate_before lib (jws_payload j) now of
                None \<Rightarrow> True | Some x \<Rightarrow> is_InvalidTokenError x)
          \<and> map_of (jws_payload j) ''exp'' = Some v \<and> py_int v = Inr n \<and> n < now"
  then have "validate_exp (jws_payload j) now = Some ExpiredSignatureError"
    by (simp add: validate_exp_def)
  with a show "decode_jwt lib secret now token = Inr None"
    by (cases "lib_validate_before lib (jws_payload j) now")
       (auto simp: decode_jwt_def jwt_decode_def)
next
  fix j v e
  assume a: "lib_loads lib token = Some j \<and> jws_alg j = JWT_ALG
          \<and> jws_sig j = lib_hmac lib secret JWT_ALG (jws_payload j)
          \<and> lib_validate_before lib (jws_payload j) now = None
          \<and> map_of (jws_payload j) ''exp'' = Some v \<and> py_int v = Inl e \<and> e \<noteq> ValueError"
  then have e: "e = TypeError \<or> e = OverflowError"
    using py_int_raises [of v e] by blast
  from a have "validate_exp (jws_payload j) now = Some e"
    by (simp add: validate_exp_def)
  with a e show "decode_jwt lib secret now token = Inl e"
    by (auto simp: decode_jwt_def jwt_decode_def)
qed

theorem decode_jwt_catches_token_errors_witness:
  "decode_jwt demo_lib ''k'' 200 ''u.mac-k'' = Inr (Some demo_claims)
   \<and> decode_jwt demo_lib ''k'' 200 ''s.mac-k'' = Inr (Some demo_str_claims)
   \<and> decode_jwt demo_lib ''k'' 200 ''u.mac-j'' = Inr None
   \<and> decode_jwt demo_lib ''k'' 200 ''o.mac-k'' = Inr None
   \<and> decode_jwt demo_lib ''k'' 200 ''zzz'' = Inr None
   \<and> decode_jwt demo_lib ''k'' 200 ''n.mac-k'' = Inl TypeError"
proof -
  have l1: "lib_loads demo_lib ''u.mac-k'' = Some \<lparr>jws_alg = ''HS256'', jws_payload = demo_claims, jws_sig = ''mac-k''\<rparr>"
    by (simp add: demo_lib_def demo_loads_def)
  have l2: "lib_loads demo_lib ''u.mac-j'' = Some \<lparr>jws_alg = ''HS256'', jws_payload = demo_claims, jws_sig = ''mac-j''\<rparr>"
    by (simp add: demo_lib_def demo_loads_def)
  have l3: "lib_loads demo_lib ''o.mac-k'' = Some \<lparr>jws_alg = ''HS256'', jws_payload = demo_old_claims, jws_sig = ''mac-k''\<rparr>"
    by (simp add: demo_lib_def demo_loads_def)
  have l4: "lib_loads demo_lib ''s.mac-k'' = Some \<lparr>jws_alg = ''HS256'', jws_payload = demo_str_claims, jws_sig = ''mac-k''\<rparr>"
    by (simp add: demo_lib_def demo_loads_def)
  have l5: "lib_loads demo_lib ''n.mac-k'' = Some \<lparr>jws_alg = ''HS256'', jws_payload = demo_null_claims, jws_sig = ''mac-k''\<rparr>"
    by (simp add: demo_lib_def demo_loads_def)
  have l6: "lib_loads demo_lib ''zzz'' = None"
    by (simp add: demo_lib_def demo_loads_def)
  have h: "lib_hmac demo_lib ''k'' a p = ''mac-k''" for a p
    by (simp add: demo_lib_def)
  have c: "lib_validate_before demo_lib p n = None" "lib_validate_after demo_lib p n = None" for p n
    by (simp_all add: demo_lib_def)
  have e1: "map_of demo_claims ''exp'' = Some (JInt 86500)"
    by (simp add: demo_claims_def)
  have e3: "map_of demo_old_claims ''exp'' = Some (JInt 50)"
    by (simp add: demo_old_claims_def)
  have e4: "map_of demo_str_claims ''exp'' = Some (JStr ''86500'')"
    by (simp add: demo_str_claims_def)
  have e5: "map_of demo_null_claims ''exp'' = Some JNull"
    by (simp add: demo_null_claims_def)
  have i4: "py_int (JStr ''86500'') = Inr 86500" by code_simp
  have r1: "decode_jwt demo_lib ''k'' 200 ''u.mac-k'' = Inr (Some demo_claims)"
    using decode_jwt_catches_token_errors [of demo_lib "''u.mac-k''" "''k''" 200] l1 h c e1
    by (simp add: JWT_ALG_def)
  have r4: "decode_jwt demo_lib ''k'' 200 ''s.mac-k'' = Inr (Some demo_str_claims)"
    using decode_jwt_catches_token_errors [of demo_lib "''s.mac-k''" "''k''" 200] l4 h c e4 i4
    by (simp add: JWT_ALG_def)
  have r2: "decode_jwt demo_lib ''k'' 200 ''u.mac-j'' = Inr None"
    using decode_jwt_catches_token_errors [of demo_lib "''u.mac-j''" "''k''" 200] l2 h
    by simp
  have r3: "decode_jwt demo_lib ''k'' 200 ''o.mac-k'' = Inr None"
    using decode_jwt_catches_token_errors [of demo_lib "''o.mac-k''" "''k''" 200] l3 h c e3
    by simp
  have r6: "decode_jwt demo_lib ''k'' 200 ''zzz'' = Inr None"
    using decode_jwt_catches_token_errors [of demo_lib "''zzz''" "''k''" 200] l6
    by simp
  have r5: "decode_jwt demo_lib ''k'' 200 ''n.mac-k'' = Inl TypeError"
    using decode_jwt_catches_token_errors [of demo_lib "''n.mac-k''" "''k''" 200] l5 h c e5
    by (simp add: JWT_ALG_def)
  show ?thesis using r1 r2 r3 r4 r5 r6 by simp
qed

text \<open>
  C10. When the lowercased header value starts with \<open>bearer\<close> and a space, whatever the
  casing of the scheme, the rest of the value is the token; with no header, a header that
  does not match, or an empty rest, the gate answers 401 and the verifier is never called.
\<close>

theorem bearer_extraction:
  "(py_startswith (py_lower a) ''bearer ''
      \<longrightarrow> get_token_from_header \<lparr>authorization = Some a\<rparr> = Some (drop 7 a)
          \<and> a = take 7 a @ drop 7 a \<and> py_lower (take 7 a) = ''bearer '')
   \<and> (authorization req = None
        \<or> (\<exists>a. authorization req = Some a \<and> \<not> py_startswith (py_lower a) ''bearer '')
        \<or> (\<exists>a. authorization req = Some a \<and> drop 7 a = [])
      \<longrightarrow> outcome (require_auth lib secret now fn req) = Inr unauthorized
          \<and> events (require_auth lib secret now fn req) = [])"
proof (intro conjI impI)
  assume p: "py_startswith (py_lower a) ''bearer ''"
  then show "get_token_from_header \<lparr>authorization = Some a\<rparr> = Some (drop 7 a)"
    by (simp add: get_token_from_header_def)
  show "a = take 7 a @ drop 7 a" by simp
  from p show "py_lower (take 7 a) = ''bearer ''"
    by (simp add: py_startswith_def py_lower_def take_map del: take_Suc_Cons) (simp add: numeral_eq_Suc)
next
  assume h: "authorization req = None
        \<or> (\<exists>a. authorization req = Some a \<and> \<not> py_startswith (py_lower a) ''bearer '')
        \<or> (\<exists>a. authorization req = Some a \<and> drop 7 a = [])"
  have e: "py_startswith (py_lower []) ''bearer '' = False"
    by (simp add: py_startswith_def py_lower_def)
  from h e have t: "get_token_from_header req = None \<or> get_token_from_header req = Some []"
    by (auto simp: get_token_from_header_def)
  then show "outcome (require_auth lib secret now fn req) = Inr unauthorized"
    by (auto simp: require_auth_def)
  from t show "events (require_auth lib secret now fn req) = []"
    by (auto simp: require_auth_def)
qed

theorem bearer_extraction_witness:
  "get_token_from_header \<lparr>authorization = Some ''BEARER x''\<rparr> = Some ''x''
   \<and> events (require_auth demo_lib ''k'' 200 me \<lparr>authorization = Some ''Bearer ''\<rparr>) = []
   \<and> events (require_auth demo_lib ''k'' 200 me \<lparr>authorization = Some ''Basic abc''\<rparr>) = []
   \<and> outcome (require_auth demo_lib ''k'' 200 me \<lparr>authorization = None\<rparr>) = Inr unauthorized"
proof -
  have p1: "py_startswith (py_lower ''BEARER x'') ''bearer ''" by code_simp
  have p2: "\<not> py_startswith (py_lower ''Basic abc'') ''bearer ''" by code_simp
  have a: "get_token_from_header \<lparr>authorization = Some ''BEARER x''\<rparr> = Some ''x''"
    using bearer_extraction [of "''BEARER x''" "\<lparr>authorization = None\<rparr>" demo_lib "''k''" 200 me] p1 by simp
  have b: "events (require_auth demo_lib ''k'' 200 me \<lparr>authorization = Some ''Bearer ''\<rparr>) = []"
    using bearer_extraction [of "''BEARER x''" "\<lparr>authorization = Some ''Bearer ''\<rparr>" demo_lib "''k''" 200 me] by simp
  have c: "events (require_auth demo_lib ''k'' 200 me \<lparr>authorization = Some ''Basic abc''\<rparr>) = []"
    using bearer_extraction [of "''BEARER x''" "\<lparr>authorization = Some ''Basic abc''\<rparr>" demo_lib "''k''" 200 me] p2 by simp
  have d: "outcome (require_auth demo_lib ''k'' 200 me \<lparr>authorization = None\<rparr>) = Inr unauthorized"
    using bearer_extraction [of "''BEARER x''" "\<lparr>authorization = None\<rparr>" demo_lib "''k''" 200 me] by simp
  show ?thesis using a b c d by simp
qed




subsection \<open>The data access helper\<close>

text \<open>
  C5, as stated, fails when the commit itself raises: the body has completed without
  exception, yet the connection is not committed; commit and rollback are both called and
  the exception of the commit reaches the caller.
\<close>

theorem get_cursor_commit_fails_counterexample:
  "get_cursor failing_commit_driver (\<lambda>d. (Inr (1::nat), d, [Execute ''UPDATE t SET x = 1'' []])) fresh_helper
     = (Inl (MySqlError ''server has gone away''),
        \<lparr>conn_open = True, db = [],
         trace = [Connect, OpenCursor, OnCursor (Execute ''UPDATE t SET x = 1'' []),
                  Commit, Rollback, CloseCursor]\<rparr>)"
  by (simp add: get_cursor_def get_connection_def on_exception_def finally_close_def log_event_def
      failing_commit_driver_def demo_driver_def fresh_helper_def)

text \<open>
  C5, amended. In a cursor scope that has its connection and whose cursor was opened, the
  cursor is closed exactly once, as the last driver call, on every exit path, and an
  exception raised by that close is the one that reaches the caller. Otherwise: when the
  body completes and the commit succeeds, commit is the only transaction call and the
  body's value is returned; when the body raises an \<open>Exception\<close>, rollback is the only
  transaction call and that exception is re-raised, unless the rollback raises, whose
  exception is then raised instead; when the commit raises an \<open>Exception\<close>, it is followed
  by a rollback and the commit's exception is raised, again unless the rollback raises. An
  exception outside \<open>Exception\<close> passes through without a rollback.
\<close>

theorem get_cursor_scope:
  assumes conn: "conn_open h \<or> drv_connect drv = None"
    and cur: "drv_cursor drv = None"
    and blk: "block (db h) = (r, d, calls)"
  shows "(\<forall>v d'. r = Inr v \<and> drv_commit drv d = Inr d' \<longrightarrow>
            trace (snd (get_cursor drv block h))
              = trace h @ connect_events h @ [OpenCursor] @ map OnCursor calls @ [Commit, CloseCursor]
            \<and> fst (get_cursor drv block h)
              = (case drv_close drv of Some c \<Rightarrow> Inl c | None \<Rightarrow> Inr v))
       \<and> (\<forall>e. r = Inl e \<and> is_Exception e \<longrightarrow>
            trace (snd (get_cursor drv block h))
              = trace h @ connect_events h @ [OpenCursor] @ map OnCursor calls @ [Rollback, CloseCursor]
            \<and> fst (get_cursor drv block h)
              = (case drv_close drv of
                   Some c \<Rightarrow> Inl c
                 | None \<Rightarrow> (case drv_rollback drv d of Inl e' \<Rightarrow> Inl e' | Inr d' \<Rightarrow> Inl e)))
       \<and> (\<forall>v e. r = Inr v \<and> drv_commit drv d = Inl e \<and> is_Exception e \<longrightarrow>
            trace (snd (get_cursor drv block h))
              = trace h @ connect_events h @ [OpenCursor] @ map OnCursor calls @ [Commit, Rollback, CloseCursor]
            \<and> fst (get_cursor drv block h)
              = (case drv_close drv of
                   Some c \<Rightarrow> Inl c
                 | None \<Rightarrow> (case drv_rollback drv d of Inl e' \<Rightarrow> Inl e' | Inr d' \<Rightarrow> Inl e)))
       \<and> (\<forall>e. r = Inl e \<and> \<not> is_Exception e \<longrightarrow>
            trace (snd (get_cursor drv block h))
              = trace h @ connect_events h @ [OpenCursor] @ map OnCursor calls @ [CloseCursor]
            \<and> fst (get_cursor drv block h)
              = (case drv_close drv of Some c \<Rightarrow> Inl c | None \<Rightarrow> Inl e))
       \<and> (\<forall>v e. r = Inr v \<and> drv_commit drv d = Inl e \<and> \<not> is_Exception e \<longrightarrow>
            trace (snd (get_cursor drv block h))
              = trace h @ connect_events h @ [OpenCursor] @ map OnCursor calls @ [Commit, CloseCursor]
            \<and> fst (get_cursor drv block h)
              = (case drv_close drv of Some c \<Rightarrow> Inl c | None \<Rightarrow> Inl e))
       \<and> last (trace (snd (get_cursor drv block h))) = CloseCursor
       \<and> count_list (drop (length (trace h)) (trace (snd (get_cursor drv block h)))) CloseCursor = 1"
proof -
  have c0: "count_list (map OnCursor cs) CloseCursor = 0" for cs
    by (induction cs) auto
  show ?thesis
    using assms
    by (cases r; cases "drv_close drv"; cases "drv_commit drv d"; cases "drv_rollback drv d")
       (auto simp: get_cursor_def get_connection_def on_exception_def finally_close_def
          log_event_def connect_events_def c0 Let_def split: sum.splits option.splits)
qed

theorem get_cursor_scope_witness:
  "trace (snd (get_cursor demo_driver (\<lambda>d. (Inr (1::nat), d, [])) fresh_helper))
     = [Connect, OpenCursor, Commit, CloseCursor]
   \<and> fst (get_cursor demo_driver (\<lambda>d. (Inr (1::nat), d, [])) fresh_helper) = Inr 1
   \<and> trace (snd (get_cursor demo_driver (\<lambda>d. (Inl (MySqlError ''syntax'') :: py_exc + nat, d, [])) fresh_helper))
     = [Connect, OpenCursor, Rollback, CloseCursor]
   \<and> fst (get_cursor demo_driver (\<lambda>d. (Inl (MySqlError ''syntax'') :: py_exc + nat, d, [])) fresh_helper)
     = Inl (MySqlError ''syntax'')
   \<and> trace (snd (get_cursor failing_commit_driver (\<lambda>d. (Inr (1::nat), d, [])) fresh_helper))
     = [Connect, OpenCursor, Commit, Rollback, CloseCursor]
   \<and> fst (get_cursor failing_commit_driver (\<lambda>d. (Inr (1::nat), d, [])) fresh_helper)
     = Inl (MySqlError ''server has gone away'')
   \<and> trace (snd (get_cursor demo_driver (\<lambda>d. (Inl (PyBaseException ''KeyboardInterrupt'') :: py_exc + nat, d, [])) fresh_helper))
     = [Connect, OpenCursor, CloseCursor]"
proof -
  have conn: "conn_open fresh_helper \<or> drv_connect demo_driver = None"
    "conn_open fresh_helper \<or> drv_connect failing_commit_driver = None"
    by (simp_all add: demo_driver_def failing_commit_driver_def)
  have cur: "drv_cursor demo_driver = None" "drv_cursor failing_commit_driver = None"
    by (simp_all add: demo_driver_def failing_commit_driver_def)
  have b1: "(\<lambda>d. (Inr (1::nat), d, [])) (db fresh_helper) = (Inr 1, [], [])"
    by (simp add: fresh_helper_def)
  have b2: "(\<lambda>d. (Inl (MySqlError ''syntax'') :: py_exc + nat, d, [])) (db fresh_helper)
      = (Inl (MySqlError ''syntax''), [], [])"
    by (simp add: fresh_helper_def)
  have b3: "(\<lambda>d. (Inl (PyBaseException ''KeyboardInterrupt'') :: py_exc + nat, d, [])) (db fresh_helper)
      = (Inl (PyBaseException ''KeyboardInterrupt''), [], [])"
    by (simp add: fresh_helper_def)
  have drv: "drv_commit demo_driver [] = Inr []" "drv_rollback demo_driver [] = Inr []"
    "drv_close demo_driver = None"
    "drv_commit failing_commit_driver [] = Inl (MySqlError ''server has gone away'')"
    "drv_rollback failing_commit_driver [] = Inr []" "drv_close failing_commit_driver = None"
    by (simp_all add: demo_driver_def failing_commit_driver_def)
  have fr: "trace fresh_helper = []" "connect_events fresh_helper = [Connect]"
    by (simp_all add: fresh_helper_def connect_events_def)
  have w1: "trace (snd (get_cursor demo_driver (\<lambda>d. (Inr (1::nat), d, [])) fresh_helper))
       = [Connect, OpenCursor, Commit, CloseCursor]
     \<and> fst (get_cursor demo_driver (\<lambda>d. (Inr (1::nat), d, [])) fresh_helper) = Inr 1"
    using get_cursor_scope [of fresh_helper demo_driver "\<lambda>d. (Inr (1::nat), d, [])" "Inr 1" "[]" "[]"]
      conn cur b1 drv fr by simp
  have w2: "trace (snd (get_cursor demo_driver (\<lambda>d. (Inl (MySqlError ''syntax'') :: py_exc + nat, d, [])) fresh_helper))
       = [Connect, OpenCursor, Rollback, CloseCursor]
     \<and> fst (get_cursor demo_driver (\<lambda>d. (Inl (MySqlError ''syntax'') :: py_exc + nat, d, [])) fresh_helper)
       = Inl (MySqlError ''syntax'')"
    using get_cursor_scope [of fresh_helper demo_driver
        "\<lambda>d. (Inl (MySqlError ''syntax'') :: py_exc + nat, d, [])" "Inl (MySqlError ''syntax'')" "[]" "[]"]
      conn cur b2 drv fr by simp
  have w3: "trace (snd (get_cursor failing_commit_driver (\<lambda>d. (Inr (1::nat), d, [])) fresh_helper))
       = [Connect, OpenCursor, Commit, Rollback, CloseCursor]
     \<and> fst (get_cursor failing_commit_driver (\<lambda>d. (Inr (1::nat), d, [])) fresh_helper)
       = Inl (MySqlError ''server has gone away'')"
    using get_cursor_scope [of fresh_helper failing_commit_driver "\<lambda>d. (Inr (1::nat), d, [])" "Inr 1" "[]" "[]"]
      conn cur b1 drv fr by simp
  have w4: "trace (snd (get_cursor demo_driver (\<lambda>d. (Inl (PyBaseException ''KeyboardInterrupt'') :: py_exc + nat, d, [])) fresh_helper))
       = [Connect, OpenCursor, CloseCursor]"
    using get_cursor_scope [of fresh_helper demo_driver
        "\<lambda>d. (Inl (PyBaseException ''KeyboardInterrupt'') :: py_exc + nat, d, [])"
        "Inl (PyBaseException ''KeyboardInterrupt'')" "[]" "[]"]
      conn cur b3 drv fr by simp
  show ?thesis using w1 w2 w3 w4 by simp
qed

text \<open>
  C6. \<open>execute_many\<close> with an empty parameter sequence returns 0 and leaves the helper as it
  was: no connection is made, no cursor opened, nothing committed or rolled back.
\<close>

theorem execute_many_empty:
  "execute_many drv sql [] h = (Inr 0, h)
   \<and> trace (snd (execute_many drv sql [] h)) = trace h
   \<and> conn_open (snd (execute_many drv sql [] h)) = conn_open h
   \<and> db (snd (execute_many drv sql [] h)) = db h"
  by (simp add: execute_many_def)


lemma executor_calls_append: "executor_calls (xs @ ys) = executor_calls xs @ executor_calls ys"
  by (induction xs rule: executor_calls.induct) auto

lemma executor_calls_OnCursor: "executor_calls (map OnCursor cs) = []"
  by (induction cs) auto

lemma executor_calls_get_cursor:
  "executor_calls (trace (snd (get_cursor drv block h))) = executor_calls (trace h)"
  by (cases "block (db h)")
    (auto simp: get_cursor_def get_connection_def on_exception_def finally_close_def
          log_event_def executor_calls_append executor_calls_OnCursor Let_def
        split: sum.splits option.splits prod.splits)

lemma executor_calls_execute_non_query:
  "executor_calls (trace (snd (execute_non_query drv sql params h))) = executor_calls (trace h) @ [sql]"
  by (simp add: execute_non_query_def executor_calls_get_cursor log_event_def executor_calls_append)

lemma executor_calls_table_exists:
  "executor_calls (trace (snd (table_exists drv t schema h))) = executor_calls (trace h)"
  by (simp add: table_exists_def executor_calls_get_cursor)

lemma executor_calls_run_create:
  "executor_calls (trace (snd (run_create drv sql h))) = executor_calls (trace h) @ [sql]"
  using executor_calls_execute_non_query [of drv sql "[]" h]
  by (auto simp: run_create_def split: prod.splits sum.splits)

lemma ensure_table_present:
  assumes "t \<noteq> []" and "fst (table_exists drv t schema h) = Inr True"
  shows "ensure_table drv sql (Some t) schema h = (Inr (), snd (table_exists drv t schema h))"
  using assms by (cases "table_exists drv t schema h") (simp add: ensure_table_def)

lemma ensure_table_calls:
  "executor_calls (trace (snd (ensure_table drv sql name schema h))) = executor_calls (trace h)
   \<or> executor_calls (trace (snd (ensure_table drv sql name schema h))) = executor_calls (trace h) @ [sql]"
proof (cases "name = None \<or> name = Some []")
  case True
  then show ?thesis
    using executor_calls_run_create [of drv sql h] by (auto simp: ensure_table_def)
next
  case False
  then obtain t where t: "name = Some t" "t \<noteq> []" by auto
  obtain r h1 where te: "table_exists drv t schema h = (r, h1)" by (cases "table_exists drv t schema h")
  have c1: "executor_calls (trace h1) = executor_calls (trace h)"
    using executor_calls_table_exists [of drv t schema h] te by simp
  show ?thesis
  proof (cases r)
    case (Inl e)
    then show ?thesis using t te c1 by (simp add: ensure_table_def)
  next
    case (Inr present)
    then show ?thesis
      using t te c1 executor_calls_run_create [of drv sql h1] by (simp add: ensure_table_def)
  qed
qed

text \<open>
  C7. When the existence check reports the table present after a first \<open>ensure_table\<close>
  with a table name, a second \<open>ensure_table\<close> with the same name returns without calling
  the executor, so the two calls together hand the creation statement to the executor at
  most once.
\<close>

theorem ensure_table_idempotent:
  assumes name: "table_name \<noteq> []"
    and present: "fst (table_exists drv table_name schema (snd (ensure_table drv sql (Some table_name) schema h))) = Inr True"
  shows "executor_calls (trace (snd (ensure_table drv sql (Some table_name) schema
            (snd (ensure_table drv sql (Some table_name) schema h)))))
          = executor_calls (trace (snd (ensure_table drv sql (Some table_name) schema h)))
       \<and> fst (ensure_table drv sql (Some table_name) schema
            (snd (ensure_table drv sql (Some table_name) schema h))) = Inr ()
       \<and> length (executor_calls (trace (snd (ensure_table drv sql (Some table_name) schema
            (snd (ensure_table drv sql (Some table_name) schema h))))))
          \<le> length (executor_calls (trace h)) + 1"
proof -
  let ?h1 = "snd (ensure_table drv sql (Some table_name) schema h)"
  have e2: "ensure_table drv sql (Some table_name) schema ?h1
      = (Inr (), snd (table_exists drv table_name schema ?h1))"
    using ensure_table_present [OF name present] .
  have c2: "executor_calls (trace (snd (ensure_table drv sql (Some table_name) schema ?h1)))
      = executor_calls (trace ?h1)"
    using e2 executor_calls_table_exists [of drv table_name schema ?h1] by simp
  have c1: "length (executor_calls (trace ?h1)) \<le> length (executor_calls (trace h)) + 1"
    using ensure_table_calls [of drv sql "Some table_name" schema h] by auto
  show ?thesis using e2 c2 c1 by simp
qed

theorem ensure_table_idempotent_witness:
  "fst (table_exists demo_driver ''users'' None
          (snd (ensure_table demo_driver ''CREATE TABLE users'' (Some ''users'') None fresh_helper))) = Inr True
   \<and> executor_calls (trace (snd (ensure_table demo_driver ''CREATE TABLE users'' (Some ''users'') None fresh_helper)))
       = [''CREATE TABLE users'']
   \<and> executor_calls (trace (snd (ensure_table demo_driver ''CREATE TABLE users'' (Some ''users'') None
         (snd (ensure_table demo_driver ''CREATE TABLE users'' (Some ''users'') None fresh_helper)))))
       = [''CREATE TABLE users'']"
proof -
  let ?h1 = "snd (ensure_table demo_driver ''CREATE TABLE users'' (Some ''users'') None fresh_helper)"
  have h1: "?h1 = \<lparr>conn_open = True, db = [''users''],
       trace = [Connect, OpenCursor, OnCursor (Execute CATALOG_QUERY [None, Some ''users'']), Commit, CloseCursor,
                NonQuery ''CREATE TABLE users'', OpenCursor, OnCursor (Execute ''CREATE TABLE users'' []),
                Commit, CloseCursor]\<rparr>"
    by (simp add: ensure_table_def table_exists_def table_exists_body_def run_create_def
        execute_non_query_def execute_body_def get_cursor_def get_connection_def finally_close_def
        log_event_def demo_driver_def demo_execute_def fresh_helper_def)
  have name: "''users'' \<noteq> []" by simp
  have present: "fst (table_exists demo_driver ''users'' None ?h1) = Inr True"
    unfolding h1
    by (simp add: table_exists_def table_exists_body_def get_cursor_def get_connection_def
        finally_close_def log_event_def demo_driver_def)
  have c1: "executor_calls (trace ?h1) = [''CREATE TABLE users'']"
    unfolding h1 by simp
  show ?thesis
    using ensure_table_idempotent [OF name present] present c1 by simp
qed

lemma script_loop_refines:
  "(case script_loop ls stmts buff of
      (ss, b) \<Rightarrow> if b \<noteq> [] then ss @ [py_join newline b] else ss)
   = stmts @ map (py_join newline)
       (split_at_terminators buff (filter (\<lambda>line. \<not> skipped_line line) ls))"
  by (induction ls arbitrary: stmts buff) auto

lemma concat_split: "concat (split_at_terminators cur ls) = cur @ ls"
  by (induction ls arbitrary: cur) auto

lemma split_nonempty: "g \<in> set (split_at_terminators cur ls) \<Longrightarrow> g \<noteq> []"
  by (induction ls arbitrary: cur) (auto split: if_splits)

lemma split_inner:
  "g \<in> set (split_at_terminators cur ls) \<Longrightarrow> \<forall>l \<in> set cur. \<not> ends_statement l
     \<Longrightarrow> l \<in> set (butlast g) \<Longrightarrow> \<not> ends_statement l"
proof (induction ls arbitrary: cur)
  case Nil
  then show ?case by (auto split: if_splits dest: in_set_butlastD)
next
  case (Cons a ls)
  show ?case
  proof (cases "ends_statement a")
    case True
    with Cons.prems have "g = cur @ [a] \<or> g \<in> set (split_at_terminators [] ls)" by auto
    then show ?thesis
    proof
      assume "g = cur @ [a]"
      with Cons.prems show ?thesis by auto
    next
      assume "g \<in> set (split_at_terminators [] ls)"
      then show ?thesis using Cons.IH [of "[]"] Cons.prems(3) by auto
    qed
  next
    case False
    with Cons.prems have "g \<in> set (split_at_terminators (cur @ [a]) ls)" by auto
    moreover have "\<forall>l \<in> set (cur @ [a]). \<not> ends_statement l" using False Cons.prems(2) by auto
    ultimately show ?thesis using Cons.IH [of "cur @ [a]"] Cons.prems(3) by blast
  qed
qed

lemma split_terminated:
  "g \<in> set (butlast (split_at_terminators cur ls)) \<Longrightarrow> ends_statement (last g)"
proof (induction ls arbitrary: cur)
  case Nil
  then show ?case by (auto split: if_splits)
next
  case (Cons a ls)
  then show ?case by (auto split: if_splits)
qed

lemma execute_each_calls:
  "\<exists>rest. stmts = drop (length (executor_calls (trace h)))
                    (executor_calls (trace (snd (execute_each drv stmts h)))) @ rest
        \<and> take (length (executor_calls (trace h)))
             (executor_calls (trace (snd (execute_each drv stmts h)))) = executor_calls (trace h)
        \<and> (fst (execute_each drv stmts h) = Inr () \<longrightarrow> rest = [])"
proof (induction stmts arbitrary: h)
  case Nil
  then show ?case by simp
next
  case (Cons s stmts)
  obtain r h1 where e: "execute_non_query drv s [] h = (r, h1)"
    by (cases "execute_non_query drv s [] h")
  have c: "executor_calls (trace h1) = executor_calls (trace h) @ [s]"
    using executor_calls_execute_non_query [of drv s "[]" h] e by simp
  show ?case
  proof (cases r)
    case (Inl x)
    then show ?thesis using e c by simp
  next
    case (Inr n)
    from Cons.IH [of h1] obtain rest where
      r: "stmts = drop (length (executor_calls (trace h1)))
                    (executor_calls (trace (snd (execute_each drv stmts h1)))) @ rest"
      and t: "take (length (executor_calls (trace h1)))
             (executor_calls (trace (snd (execute_each drv stmts h1)))) = executor_calls (trace h1)"
      and f: "fst (execute_each drv stmts h1) = Inr () \<longrightarrow> rest = []"
      by blast
    let ?E = "executor_calls (trace (snd (execute_each drv stmts h1)))"
    have E: "?E = (executor_calls (trace h) @ [s]) @ drop (length (executor_calls (trace h1))) ?E"
      using t c by (metis append_take_drop_id)
    have d: "drop (length (executor_calls (trace h))) ?E = s # drop (length (executor_calls (trace h1))) ?E"
      by (subst E) simp
    have tk: "take (length (executor_calls (trace h))) ?E = executor_calls (trace h)"
      by (subst E) simp
    show ?thesis
      using Inr e r f d tk by (intro exI [of _ rest]) simp
  qed
qed

lemma cursor_executes_append:
  "cursor_executes (xs @ ys) = cursor_executes xs @ cursor_executes ys"
  by (induction xs rule: cursor_executes.induct) auto

lemma execute_non_query_runs:
  "(fst (execute_non_query drv sql [] h) = Inr n \<longrightarrow>
      cursor_executes (trace (snd (execute_non_query drv sql [] h)))
        = cursor_executes (trace h) @ [(sql, [])]
      \<and> db (snd (execute_non_query drv sql [] h)) = apply_statement drv sql (db h))
   \<and> (cursor_executes (trace (snd (execute_non_query drv sql [] h))) = cursor_executes (trace h)
      \<or> cursor_executes (trace (snd (execute_non_query drv sql [] h)))
           = cursor_executes (trace h) @ [(sql, [])])"
  by (cases "drv_execute drv sql [] (db h)"; cases "drv_close drv"; cases "drv_connect drv";
      cases "drv_cursor drv")
     (auto simp: execute_non_query_def execute_body_def get_cursor_def get_connection_def
        on_exception_def finally_close_def log_event_def cursor_executes_append apply_statement_def
        Let_def split: sum.splits option.splits prod.splits)

lemma execute_each_runs:
  "\<exists>ran rest. map (\<lambda>s. (s, [])) stmts = ran @ rest
      \<and> cursor_executes (trace (snd (execute_each drv stmts h))) = cursor_executes (trace h) @ ran
      \<and> (fst (execute_each drv stmts h) = Inr () \<longrightarrow>
           rest = []
           \<and> db (snd (execute_each drv stmts h))
               = foldl (\<lambda>d s. apply_statement drv s d) (db h) stmts)"
proof (induction stmts arbitrary: h)
  case Nil
  then show ?case by simp
next
  case (Cons s stmts)
  obtain r h1 where e: "execute_non_query drv s [] h = (r, h1)"
    by (cases "execute_non_query drv s [] h")
  show ?case
  proof (cases r)
    case (Inl x)
    have "cursor_executes (trace h1) = cursor_executes (trace h)
        \<or> cursor_executes (trace h1) = cursor_executes (trace h) @ [(s, [])]"
      using execute_non_query_runs [of drv s h] e by simp
    then show ?thesis
    proof
      assume "cursor_executes (trace h1) = cursor_executes (trace h)"
      then show ?thesis
        using Inl e by (intro exI [of _ "[]"] exI [of _ "map (\<lambda>s. (s, [])) (s # stmts)"]) simp
    next
      assume "cursor_executes (trace h1) = cursor_executes (trace h) @ [(s, [])]"
      then show ?thesis
        using Inl e by (intro exI [of _ "[(s, [])]"] exI [of _ "map (\<lambda>s. (s, [])) stmts"]) simp
    qed
  next
    case (Inr n)
    have c: "cursor_executes (trace h1) = cursor_executes (trace h) @ [(s, [])]"
      and d: "db h1 = apply_statement drv s (db h)"
      using execute_non_query_runs [of drv s h n] e Inr by simp_all
    from Cons.IH [of h1] obtain ran rest where
      m: "map (\<lambda>s. (s, [])) stmts = ran @ rest"
      and t: "cursor_executes (trace (snd (execute_each drv stmts h1))) = cursor_executes (trace h1) @ ran"
      and f: "fst (execute_each drv stmts h1) = Inr () \<longrightarrow>
           rest = []
           \<and> db (snd (execute_each drv stmts h1))
               = foldl (\<lambda>d s. apply_statement drv s d) (db h1) stmts"
      by blast
    show ?thesis
      using Inr e m t f c d by (intro exI [of _ "(s, []) # ran"] exI [of _ rest]) simp
  qed
qed

lemma execute_non_query_returns:
  assumes "drv_connect drv = None" and "drv_cursor drv = None" and "drv_close drv = None"
    and ex: "\<forall>sql d. \<exists>n d'. drv_execute drv sql [] d = Inr (n, d')"
    and co: "\<forall>d. \<exists>d'. drv_commit drv d = Inr d'"
  shows "\<exists>n. fst (execute_non_query drv sql [] h) = Inr n"
proof -
  obtain n d' where e: "drv_execute drv sql [] (db h) = Inr (n, d')"
    using ex by blast
  obtain d'' where c: "drv_commit drv d' = Inr d''"
    using co by blast
  show ?thesis
    using assms(1-3) e c
    by (auto simp: execute_non_query_def execute_body_def get_cursor_def get_connection_def
        finally_close_def log_event_def Let_def)
qed

lemma execute_each_returns:
  assumes "drv_connect drv = None" and "drv_cursor drv = None" and "drv_close drv = None"
    and "\<forall>sql d. \<exists>n d'. drv_execute drv sql [] d = Inr (n, d')"
    and "\<forall>d. \<exists>d'. drv_commit drv d = Inr d'"
  shows "fst (execute_each drv stmts h) = Inr ()"
proof (induction stmts arbitrary: h)
  case Nil
  then show ?case by simp
next
  case (Cons s stmts)
  obtain n where "fst (execute_non_query drv s [] h) = Inr n"
    using execute_non_query_returns [OF assms] by blast
  then show ?case
    using Cons.IH by (cases "execute_non_query drv s [] h") simp
qed

text \<open>
  C8. The statements of \<open>run_script\<close> are the non-skipped lines of the text (blank lines and
  lines starting with \<open>--\<close> or \<open>#\<close> after stripping are skipped), cut after every line whose
  stripped content ends with a semicolon and joined by newlines: no kept line is lost or
  moved, every statement but the last ends with such a line, and no statement has one
  inside. The statements are run on a cursor in this order, each without parameters: the
  ones run are an initial part of the list, and when the run returns they are all of them
  and the engine state is the result of running and committing each in turn. The run
  returns whenever no driver call raises. The executor is entered for the statements in the
  same order.
\<close>

theorem run_script_partition:
  "script_statements sql_text = map (py_join newline) (split_at_terminators [] (kept_lines sql_text))
   \<and> concat (split_at_terminators [] (kept_lines sql_text)) = kept_lines sql_text
   \<and> (\<forall>g \<in> set (split_at_terminators [] (kept_lines sql_text)).
         g \<noteq> [] \<and> (\<forall>l \<in> set (butlast g). \<not> ends_statement l))
   \<and> (\<forall>g \<in> set (butlast (split_at_terminators [] (kept_lines sql_text))). ends_statement (last g))
   \<and> (\<exists>ran rest. map (\<lambda>s. (s, [])) (script_statements sql_text) = ran @ rest
          \<and> cursor_executes (trace (snd (run_script drv sql_text h))) = cursor_executes (trace h) @ ran
          \<and> (fst (run_script drv sql_text h) = Inr () \<longrightarrow>
               rest = []
               \<and> db (snd (run_script drv sql_text h))
                   = foldl (\<lambda>d s. apply_statement drv s d) (db h) (script_statements sql_text)))
   \<and> (drv_connect drv = None \<and> drv_cursor drv = None \<and> drv_close drv = None
        \<and> (\<forall>sql d. \<exists>n d'. drv_execute drv sql [] d = Inr (n, d'))
        \<and> (\<forall>d. \<exists>d'. drv_commit drv d = Inr d')
      \<longrightarrow> fst (run_script drv sql_text h) = Inr ())
   \<and> (\<exists>rest. script_statements sql_text
                = drop (length (executor_calls (trace h)))
                    (executor_calls (trace (snd (run_script drv sql_text h)))) @ rest
          \<and> take (length (executor_calls (trace h)))
               (executor_calls (trace (snd (run_script drv sql_text h)))) = executor_calls (trace h)
          \<and> (fst (run_script drv sql_text h) = Inr () \<longrightarrow> rest = []))"
proof (intro conjI)
  show "drv_connect drv = None \<and> drv_cursor drv = None \<and> drv_close drv = None
        \<and> (\<forall>sql d. \<exists>n d'. drv_execute drv sql [] d = Inr (n, d'))
        \<and> (\<forall>d. \<exists>d'. drv_commit drv d = Inr d')
      \<longrightarrow> fst (run_script drv sql_text h) = Inr ()"
    unfolding run_script_def using execute_each_returns [of drv] by blast
  show "script_statements sql_text = map (py_join newline) (split_at_terminators [] (kept_lines sql_text))"
    using script_loop_refines [of "py_splitlines sql_text" "[]" "[]"]
    by (simp add: script_statements_def kept_lines_def)
  show "concat (split_at_terminators [] (kept_lines sql_text)) = kept_lines sql_text"
    by (simp add: concat_split)
  show "\<forall>g \<in> set (split_at_terminators [] (kept_lines sql_text)).
         g \<noteq> [] \<and> (\<forall>l \<in> set (butlast g). \<not> ends_statement l)"
    by (metis split_nonempty split_inner empty_iff list.set(1))
  show "\<forall>g \<in> set (butlast (split_at_terminators [] (kept_lines sql_text))). ends_statement (last g)"
    using split_terminated by blast
  show "\<exists>ran rest. map (\<lambda>s. (s, [])) (script_statements sql_text) = ran @ rest
          \<and> cursor_executes (trace (snd (run_script drv sql_text h))) = cursor_executes (trace h) @ ran
          \<and> (fst (run_script drv sql_text h) = Inr () \<longrightarrow>
               rest = []
               \<and> db (snd (run_script drv sql_text h))
                   = foldl (\<lambda>d s. apply_statement drv s d) (db h) (script_statements sql_text))"
    unfolding run_script_def by (rule execute_each_runs)
  show "\<exists>rest. script_statements sql_text
                = drop (length (executor_calls (trace h)))
                    (executor_calls (trace (snd (run_script drv sql_text h)))) @ rest
          \<and> take (length (executor_calls (trace h)))
               (executor_calls (trace (snd (run_script drv sql_text h)))) = executor_calls (trace h)
          \<and> (fst (run_script drv sql_text h) = Inr () \<longrightarrow> rest = [])"
    unfolding run_script_def by (rule execute_each_calls)
qed

lemma demo_kept: "kept_lines demo_script = [''CREATE TABLE a'', '' (x int);'', ''INSERT 1; '', ''DROP'']"
  by code_simp

lemma demo_groups: "split_at_terminators [] [''CREATE TABLE a'', '' (x int);'', ''INSERT 1; '', ''DROP'']
   = [[''CREATE TABLE a'', '' (x int);''], [''INSERT 1; ''], [''DROP'']]"
  by code_simp

lemma demo_joined: "map (py_join newline) [[''CREATE TABLE a'', '' (x int);''], [''INSERT 1; ''], [''DROP'']]
   = [''CREATE TABLE a\<newline> (x int);'', ''INSERT 1; '', ''DROP'']"
  by code_simp

theorem run_script_partition_witness:
  "script_statements demo_script = [''CREATE TABLE a\<newline> (x int);'', ''INSERT 1; '', ''DROP'']
   \<and> cursor_executes (trace (snd (run_script demo_driver demo_script fresh_helper)))
       = [(''CREATE TABLE a\<newline> (x int);'', []), (''INSERT 1; '', []), (''DROP'', [])]
   \<and> db (snd (run_script demo_driver demo_script fresh_helper)) = [''a\<newline> (x int);'']
   \<and> executor_calls (trace (snd (run_script demo_driver demo_script fresh_helper)))
       = [''CREATE TABLE a\<newline> (x int);'', ''INSERT 1; '', ''DROP'']"
proof -
  have t: "executor_calls (trace fresh_helper) = []" "cursor_executes (trace fresh_helper) = []"
    "db fresh_helper = []"
    by (simp_all add: fresh_helper_def)
  have healthy: "drv_connect demo_driver = None \<and> drv_cursor demo_driver = None
      \<and> drv_close demo_driver = None
      \<and> (\<forall>sql d. \<exists>n d'. drv_execute demo_driver sql [] d = Inr (n, d'))
      \<and> (\<forall>d. \<exists>d'. drv_commit demo_driver d = Inr d')"
    by (simp add: demo_driver_def demo_execute_def)
  have ok: "fst (run_script demo_driver demo_script fresh_helper) = Inr ()"
    using run_script_partition [of demo_script demo_driver fresh_helper] healthy by blast
  have g: "split_at_terminators [] (kept_lines demo_script)
      = [[''CREATE TABLE a'', '' (x int);''], [''INSERT 1; ''], [''DROP'']]"
    using demo_kept demo_groups by simp
  have s: "script_statements demo_script = [''CREATE TABLE a\<newline> (x int);'', ''INSERT 1; '', ''DROP'']"
    using run_script_partition [of demo_script demo_driver fresh_helper] g demo_joined by simp
  have a: "apply_statement demo_driver sql d
      = (if take 13 sql = ''CREATE TABLE '' then d @ [drop 13 sql] else d)" for sql d
    by (simp add: apply_statement_def demo_driver_def demo_execute_def)
  have "\<exists>ran rest. map (\<lambda>s. (s, [])) (script_statements demo_script) = ran @ rest
          \<and> cursor_executes (trace (snd (run_script demo_driver demo_script fresh_helper)))
              = cursor_executes (trace fresh_helper) @ ran
          \<and> (fst (run_script demo_driver demo_script fresh_helper) = Inr () \<longrightarrow>
               rest = []
               \<and> db (snd (run_script demo_driver demo_script fresh_helper))
                   = foldl (\<lambda>d s. apply_statement demo_driver s d) (db fresh_helper)
                       (script_statements demo_script))"
    using run_script_partition [of demo_script demo_driver fresh_helper] by blast
  then have c: "cursor_executes (trace (snd (run_script demo_driver demo_script fresh_helper)))
        = map (\<lambda>s. (s, [])) (script_statements demo_script)
      \<and> db (snd (run_script demo_driver demo_script fresh_helper))
        = foldl (\<lambda>d s. apply_statement demo_driver s d) [] (script_statements demo_script)"
    using t ok by auto
  have "\<exists>rest. script_statements demo_script
          = drop (length (executor_calls (trace fresh_helper)))
              (executor_calls (trace (snd (run_script demo_driver demo_script fresh_helper)))) @ rest
        \<and> (fst (run_script demo_driver demo_script fresh_helper) = Inr () \<longrightarrow> rest = [])"
    using run_script_partition [of demo_script demo_driver fresh_helper] by blast
  then have x: "script_statements demo_script
      = executor_calls (trace (snd (run_script demo_driver demo_script fresh_helper)))"
    using t ok by auto
  have c': "cursor_executes (trace (snd (run_script demo_driver demo_script fresh_helper)))
        = [(''CREATE TABLE a\<newline> (x int);'', []), (''INSERT 1; '', []), (''DROP'', [])]
      \<and> db (snd (run_script demo_driver demo_script fresh_helper)) = [''a\<newline> (x int);'']"
    using c unfolding s by (simp add: a)
  have x': "executor_calls (trace (snd (run_script demo_driver demo_script fresh_helper)))
      = [''CREATE TABLE a\<newline> (x int);'', ''INSERT 1; '', ''DROP'']"
    using x unfolding s by (rule sym)
  show ?thesis
    using s c' x' by blast
qed

subsection \<open>Registration\<close>

text \<open>
  C2. Two register requests with passwords whose emails have the same non-empty normal
  form (trimmed, then lowercased), not yet in the table: the first is answered
  \<open>{message: ok}\<close>, the second 409, and the table has gained exactly one row, the only one
  with that email.
\<close>

theorem register_twice:
  assumes same: "normalize_email (r_email d1) = normalize_email (r_email d2)"
    and email: "normalize_email (r_email d1) \<noteq> []"
    and pw: "or_empty (r_password d1) \<noteq> []" "or_empty (r_password d2) \<noteq> []"
    and fresh: "\<forall>r \<in> set (users st). u_email r \<noteq> normalize_email (r_email d1)"
  shows "fst (register gen_hash d1 st) = \<lparr>status = 200, body = [(''message'', JStr ''ok'')]\<rparr>
       \<and> fst (register gen_hash d2 (snd (register gen_hash d1 st)))
           = \<lparr>status = 409, body = [(''error'', JStr ''email already exists'')]\<rparr>
       \<and> length (filter (\<lambda>r. u_email r = normalize_email (r_email d1))
            (users (snd (register gen_hash d2 (snd (register gen_hash d1 st)))))) = 1
       \<and> length (users (snd (register gen_hash d2 (snd (register gen_hash d1 st)))))
           = length (users st) + 1"
proof -
  have none: "filter (\<lambda>r. u_email r = normalize_email (r_email d1)) (users st) = []"
    using fresh by (simp add: filter_empty_conv)
  have r1: "register gen_hash d1 st
      = (\<lparr>status = 200, body = [(''message'', JStr ''ok'')]\<rparr>,
         insert_user st
           (py_strip (if or_empty (r_username d1) \<noteq> [] then or_empty (r_username d1)
                      else local_part (normalize_email (r_email d1))))
           (normalize_email (r_email d1)) (gen_hash (or_empty (r_password d1))))"
    using email pw(1) none by (simp add: register_def select_id_by_email_def Let_def)
  have r2: "register gen_hash d2 (snd (register gen_hash d1 st))
      = (\<lparr>status = 409, body = [(''error'', JStr ''email already exists'')]\<rparr>, snd (register gen_hash d1 st))"
    unfolding r1 using email pw(2) same
    by (simp add: register_def select_id_by_email_def insert_user_def Let_def)
  show ?thesis
    unfolding r2 unfolding r1 using none by (simp add: insert_user_def)
qed

text \<open>
  C9, as stated, fails when whitespace precedes the \<open>@\<close>: the stored name is trimmed, the
  local part of the normalized email is not.
\<close>

theorem register_local_part_stripped_counterexample:
  "users (snd (register demo_hash \<lparr>r_email = Some ''a @b.com'', r_password = Some ''pw'', r_username = None\<rparr> empty_store))
     = [\<lparr>u_id = 1, u_username = ''a'', u_email = ''a @b.com'', u_password_hash = ''pbkdf2:sha256$pw''\<rparr>]
   \<and> takeWhile (\<lambda>c. c \<noteq> CHR ''@'') (normalize_email (Some ''a @b.com'')) = ''a ''"
proof -
  have n: "normalize_email (Some ''a @b.com'') = ''a @b.com''" by code_simp
  have s: "py_strip ''a '' = ''a''" by code_simp
  show ?thesis
    using n s by (simp add: register_def local_part_def select_id_by_email_def insert_user_def
        empty_store_def demo_hash_def Let_def)
qed

lemma takeWhile_all: "x \<notin> set e \<Longrightarrow> takeWhile (\<lambda>c. c \<noteq> x) e = e"
  by (induction e) auto

lemma local_part_takeWhile: "local_part e = takeWhile (\<lambda>c. c \<noteq> CHR ''@'') e"
  by (simp add: local_part_def takeWhile_all)

text \<open>
  C9, amended. A register request with email and password and no username, for an email
  not yet in the table, stores as display name the part of the normalized email before
  the first \<open>@\<close> (the whole of it when it has none) with surrounding whitespace removed.
\<close>

theorem register_default_username:
  assumes nouser: "or_empty (r_username data) = []"
    and email: "normalize_email (r_email data) \<noteq> []"
    and pw: "or_empty (r_password data) \<noteq> []"
    and fresh: "\<forall>r \<in> set (users st). u_email r \<noteq> normalize_email (r_email data)"
  shows "users (snd (register gen_hash data st))
       = users st @ [\<lparr>u_id = next_id st,
            u_username = py_strip (takeWhile (\<lambda>c. c \<noteq> CHR ''@'') (normalize_email (r_email data))),
            u_email = normalize_email (r_email data),
            u_password_hash = gen_hash (or_empty (r_password data))\<rparr>]"
proof -
  have none: "filter (\<lambda>r. u_email r = normalize_email (r_email data)) (users st) = []"
    using fresh by (simp add: filter_empty_conv)
  show ?thesis
    using nouser email pw none
    by (simp add: register_def select_id_by_email_def insert_user_def Let_def local_part_takeWhile)
qed

theorem register_twice_witness:
  "fst (register demo_hash demo_register_padded empty_store)
     = \<lparr>status = 200, body = [(''message'', JStr ''ok'')]\<rparr>
   \<and> fst (register demo_hash demo_register_plain (snd (register demo_hash demo_register_padded empty_store)))
     = \<lparr>status = 409, body = [(''error'', JStr ''email already exists'')]\<rparr>
   \<and> length (users (snd (register demo_hash demo_register_plain
        (snd (register demo_hash demo_register_padded empty_store))))) = 1"
proof -
  have n1: "normalize_email (r_email demo_register_padded) = ''a@b.com''"
    by (simp add: demo_register_padded_def) code_simp
  have n2: "normalize_email (r_email demo_register_plain) = ''a@b.com''"
    by (simp add: demo_register_plain_def) code_simp
  have same: "normalize_email (r_email demo_register_padded) = normalize_email (r_email demo_register_plain)"
    unfolding n1 n2 by (rule refl)
  have email: "normalize_email (r_email demo_register_padded) \<noteq> []"
    unfolding n1 by simp
  have pw1: "or_empty (r_password demo_register_padded) \<noteq> []"
    by (simp add: demo_register_padded_def)
  have pw2: "or_empty (r_password demo_register_plain) \<noteq> []"
    by (simp add: demo_register_plain_def)
  have fresh: "\<forall>r \<in> set (users empty_store). u_email r \<noteq> normalize_email (r_email demo_register_padded)"
    by (simp add: empty_store_def)
  have len: "length (users empty_store) + 1 = 1" by (simp add: empty_store_def)
  have t: "fst (register demo_hash demo_register_padded empty_store)
       = \<lparr>status = 200, body = [(''message'', JStr ''ok'')]\<rparr>
     \<and> fst (register demo_hash demo_register_plain (snd (register demo_hash demo_register_padded empty_store)))
       = \<lparr>status = 409, body = [(''error'', JStr ''email already exists'')]\<rparr>
     \<and> length (filter (\<lambda>r. u_email r = normalize_email (r_email demo_register_padded))
            (users (snd (register demo_hash demo_register_plain
               (snd (register demo_hash demo_register_padded empty_store)))))) = 1
     \<and> length (users (snd (register demo_hash demo_register_plain
            (snd (register demo_hash demo_register_padded empty_store)))))
         = length (users empty_store) + 1"
    by (rule register_twice [OF same email pw1 pw2 fresh])
  show ?thesis
    using t unfolding len by blast
qed

theorem register_default_username_witness:
  "users (snd (register demo_hash demo_register_bob empty_store))
     = [\<lparr>u_id = 1, u_username = ''bob'', u_email = ''bob@example.com'', u_password_hash = ''pbkdf2:sha256$pw''\<rparr>]"
proof -
  have n: "normalize_email (r_email demo_register_bob) = ''bob@example.com''"
    by (simp add: demo_register_bob_def) code_simp
  have s: "py_strip (takeWhile (\<lambda>c. c \<noteq> CHR ''@'') ''bob@example.com'') = ''bob''" by code_simp
  have h: "demo_hash (or_empty (r_password demo_register_bob)) = ''pbkdf2:sha256$pw''"
    by (simp add: demo_register_bob_def demo_hash_def)
  have nouser: "or_empty (r_username demo_register_bob) = []"
    by (simp add: demo_register_bob_def)
  have email: "normalize_email (r_email demo_register_bob) \<noteq> []"
    unfolding n by simp
  have pw: "or_empty (r_password demo_register_bob) \<noteq> []"
    by (simp add: demo_register_bob_def)
  have fresh: "\<forall>r \<in> set (users empty_store). u_email r \<noteq> normalize_email (r_email demo_register_bob)"
    by (simp add: empty_store_def)
  have e: "users empty_store = []" "next_id empty_store = 1"
    by (simp_all add: empty_store_def)
  show ?thesis
    using register_default_username [OF nouser email pw fresh, of demo_hash]
    unfolding n s h e by simp
qed

end
